theory Spec2Isabelle
  imports Complex_Main
begin

section \<open>Numeric model\<close>

text \<open>
  The weight calculator of \<^verbatim>\<open>internal/services/program_service.go\<close> computes in
  Go's \<^verbatim>\<open>float64\<close> and \<^verbatim>\<open>int\<close>. A \<^verbatim>\<open>float64\<close> is modelled as an exact real
  number, an infinity, or NaN: rounding error is outside the model, the special values
  are not, because \<^verbatim>\<open>0.0 / 0.0\<close> is NaN in Go (no panic) and every ordered comparison
  with NaN is false. Go's \<^verbatim>\<open>int\<close> is taken at its 64-bit size (the size on every 64-bit
  platform): a value of the type is an \<open>int\<close>, and the result of an addition or subtraction
  is wrapped to 64 bits by \<open>int64\<close>.
\<close>

datatype float64 = Finite real | Infinity bool | NaN

text \<open>\<open>Infinity True\<close> is \<open>+Inf\<close>, \<open>Infinity False\<close> is \<open>-Inf\<close>.\<close>

fun f64_sub :: "float64 \<Rightarrow> float64 \<Rightarrow> float64" where
  "f64_sub (Finite a) (Finite b) = Finite (a - b)"
| "f64_sub (Finite a) (Infinity s) = Infinity (\<not> s)"
| "f64_sub (Infinity s) (Finite b) = Infinity s"
| "f64_sub (Infinity s) (Infinity t) = (if s = t then NaN else Infinity s)"
| "f64_sub NaN y = NaN"
| "f64_sub x NaN = NaN"

fun f64_div :: "float64 \<Rightarrow> float64 \<Rightarrow> float64" where
  "f64_div (Finite a) (Finite b) =
     (if b = 0 then (if a = 0 then NaN else Infinity (0 < a)) else Finite (a / b))"
| "f64_div (Finite a) (Infinity t) = Finite 0"
| "f64_div (Infinity s) (Finite b) = Infinity (if b < 0 then \<not> s else s)"
| "f64_div (Infinity s) (Infinity t) = NaN"
| "f64_div NaN y = NaN"
| "f64_div x NaN = NaN"

fun f64_ge :: "float64 \<Rightarrow> real \<Rightarrow> bool" where
  "f64_ge (Finite a) c = (c \<le> a)"
| "f64_ge (Infinity s) c = s"
| "f64_ge NaN c = False"

fun f64_le :: "float64 \<Rightarrow> real \<Rightarrow> bool" where
  "f64_le (Finite a) c = (a \<le> c)"
| "f64_le (Infinity s) c = (\<not> s)"
| "f64_le NaN c = False"

definition float64_of_int :: "int \<Rightarrow> float64" where
  "float64_of_int n = Finite (of_int n)"

definition math_Round :: "real \<Rightarrow> real" where
  \<comment> \<open>\<^verbatim>\<open>math.Round\<close>: the nearest integer, halves away from zero.\<close>
  "math_Round x = (if x < 0 then - of_int \<lfloor>- x + 1 / 2\<rfloor> else of_int \<lfloor>x + 1 / 2\<rfloor>)"

definition int64 :: "int \<Rightarrow> int" where
  \<comment> \<open>Two's complement wrap-around to the range from \<open>- 2 ^ 63\<close> to \<open>2 ^ 63 - 1\<close>.\<close>
  "int64 n = (n + 2 ^ 63) mod 2 ^ 64 - 2 ^ 63"

definition go_quo :: "int \<Rightarrow> int \<Rightarrow> int" where
  \<comment> \<open>Go's \<^verbatim>\<open>/\<close> on \<^verbatim>\<open>int\<close>: the quotient truncated towards zero.\<close>
  "go_quo a b = sgn a * sgn b * (\<bar>a\<bar> div \<bar>b\<bar>)"

section \<open>Data model\<close>

type_synonym time = int

text \<open>\<^verbatim>\<open>models.User\<close> (\<^verbatim>\<open>internal/models/user.go\<close>).\<close>

record User =
  usr_ID :: string
  Email :: string
  PasswordHash :: string
  Name :: string
  Age :: int
  Sex :: string
  Height :: real
  Weight :: real
  ActivityLevel :: string
  Goal :: string
  usr_ProgramID :: int
  WeeklyBudget :: real
  usr_CreatedAt :: time
  UpdatedAt :: time

section \<open>Progressive overload: average RIR and the adjustment tiers\<close>

definition calculateAverageRIR :: "int list \<Rightarrow> float64" where
  "calculateAverageRIR rirArray =
     (let sum = foldl (\<lambda>sum rir. int64 (sum + rir)) 0 rirArray
      in f64_div (float64_of_int sum) (float64_of_int (int (length rirArray))))"

definition calculateWeightAdjustment :: "float64 \<Rightarrow> float64 \<Rightarrow> real" where
  "calculateWeightAdjustment actualRIR targetRIR =
     (let difference = f64_sub targetRIR actualRIR
      in if f64_ge difference 2 then 0.9
         else if f64_le difference (- 2) then 1.1
         else if f64_ge difference 1 then 0.95
         else if f64_le difference (- 1) then 1.05
         else 1.0)"

section \<open>Initial weights: base strength and exercise modifier\<close>

text \<open>
  \<^verbatim>\<open>calculateBaseStrength\<close> and \<^verbatim>\<open>getExerciseModifier\<close> are declared with result
  type \<^verbatim>\<open>int\<close>, yet they compute with the fractional constants 0.6, 1.2, 0.9, 1.1 and
  return 0.8 or 0.5; the model keeps the values as written (reals) and applies no
  truncation the source does not write. Each operator is read at the type of its
  operands: \<^verbatim>\<open>user.Age\<close> is an \<^verbatim>\<open>int\<close> (\<^verbatim>\<open>models.User\<close>), so
  \<^verbatim>\<open>(user.Age-13)/120\<close> and \<^verbatim>\<open>(user.Age-35)/100\<close> are Go integer divisions.
\<close>

definition calculateBaseStrength :: "User \<Rightarrow> real" where
  "calculateBaseStrength user =
     (let base = Weight user * 0.6;
          base = (if Sex user = ''male'' then base * 1.2 else base);
          base = (if Age user < 25 then base * (0.9 + of_int (go_quo (int64 (Age user - 13)) 120))
                  else if Age user > 35 then base * (1.1 - of_int (go_quo (int64 (Age user - 35)) 100))
                  else base)
      in base)"

definition modifiers :: "(int \<times> real) list" where
  "modifiers = [(1, 1.0), (2, 0.8), (3, 1.2), (4, 1.1), (5, 0.5)]"

definition getExerciseModifier :: "int \<Rightarrow> real" where
  \<comment> \<open>Indexing a Go map with a missing key yields the zero value of the element type.\<close>
  "getExerciseModifier exerciseID =
     (case map_of modifiers exerciseID of Some m \<Rightarrow> m | None \<Rightarrow> 0)"



section \<open>Errors\<close>

text \<open>
  Go \<^verbatim>\<open>error\<close> values: the driver's \<^verbatim>\<open>pgx.ErrNoRows\<close> (what \<^verbatim>\<open>QueryRow(...).Scan\<close>
  of \<^verbatim>\<open>github.com/jackc/pgx/v5\<close> returns when the query has no row), an
  \<^verbatim>\<open>errors.New\<close>/\<^verbatim>\<open>fmt.Errorf\<close> message, an error wrapped by
  \<^verbatim>\<open>fmt.Errorf("...: %w", err)\<close>, and an error reported by the database server.
  \<open>Error\<close> is the method \<^verbatim>\<open>Error()\<close>; the text of \<^verbatim>\<open>pgx.ErrNoRows\<close> is
  \<^verbatim>\<open>no rows in result set\<close> (the text \<^verbatim>\<open>sql: no rows in result set\<close> belongs to
  \<^verbatim>\<open>sql.ErrNoRows\<close> of \<^verbatim>\<open>database/sql\<close>, which this repository does not use).
  Failures of the connection itself are outside the model.
\<close>

datatype error =
    ErrNoRows
  | errorString string
  | wrapError string error
  | PgError string

fun Error :: "error \<Rightarrow> string" where
  "Error ErrNoRows = ''no rows in result set''"
| "Error (errorString s) = s"
| "Error (wrapError prefix err) = prefix @ Error err"
| "Error (PgError msg) = msg"

definition check_violation :: "string \<Rightarrow> string \<Rightarrow> error" where
  "check_violation rel con =
     PgError (''ERROR: new row for relation '' @ rel @ '' violates check constraint '' @ con
              @ '' (SQLSTATE 23514)'')"

definition fk_violation :: "string \<Rightarrow> string \<Rightarrow> error" where
  "fk_violation rel con =
     PgError (''ERROR: insert or update on table '' @ rel
              @ '' violates foreign key constraint '' @ con @ '' (SQLSTATE 23503)'')"

definition unique_violation :: "string \<Rightarrow> error" where
  "unique_violation con =
     PgError (''ERROR: duplicate key value violates unique constraint '' @ con
              @ '' (SQLSTATE 23505)'')"

section \<open>Program data and the store\<close>

text \<open>
  The structs of \<^verbatim>\<open>internal/models/program.go\<close> and \<^verbatim>\<open>models.UserProgram\<close>. Several
  structs have fields of the same name (\<^verbatim>\<open>ID\<close>, \<^verbatim>\<open>ProgramID\<close>, \<^verbatim>\<open>CreatedAt\<close>, ...);
  those carry a prefix here.
\<close>

record Program =
  prg_ID :: int
  prg_Name :: string
  prg_Description :: string
  prg_Goal :: string
  EstimatedWeeks :: int
  prg_CreatedAt :: time

record ProgramWorkout =
  pw_ID :: int
  pw_ProgramID :: int
  pw_Name :: string
  DayOfWeek :: int
  pw_Description :: string

record ProgramWorkoutExercise =
  pwe_ID :: int
  ProgramWorkoutID :: int
  ExerciseID :: int
  Sets :: int
  Reps :: int
  TargetRIR :: int
  PrescribedWeight :: int
  ExerciseOrder :: int
  Notes :: string

record UserProgram =
  up_ID :: int
  up_UserID :: string
  up_ProgramID :: int
  StartDate :: time
  IsActive :: bool
  up_CreatedAt :: time

record WorkoutSession =
  ws_ID :: int
  UserProgramID :: int
  ws_ProgramWorkoutID :: int
  CompletedDate :: time
  ws_Notes :: string
  ws_CreatedAt :: time

record WorkoutExerciseLog =
  wel_ID :: int
  WorkoutID :: int
  ProgramWorkoutExerciseID :: int
  ActualReps :: "int list"
  ActualRIR :: "int list"
  wel_CreatedAt :: time

text \<open>\<^verbatim>\<open>services.ExerciseLogRequest\<close>.\<close>

record ExerciseLogRequest =
  req_ProgramWorkoutExerciseID :: int
  req_ActualReps :: "int list"
  req_ActualRIR :: "int list"

text \<open>
  The relational store behind the connection pool: one list of rows per table of
  \<^verbatim>\<open>internal/db/schema.sql\<close>, in the shape of the struct the repository scans a row
  into, and the \<^verbatim>\<open>SERIAL\<close> counters of the tables the modelled code inserts into. A
  row of \<^verbatim>\<open>users\<close> is paired with its \<^verbatim>\<open>deleted_at\<close> column. The store keeps a value
  as it is sent (the rounding of \<^verbatim>\<open>DECIMAL\<close> columns and the truncation of
  \<^verbatim>\<open>start_date DATE\<close> to the calendar day are not modelled).
\<close>

record store =
  tbl_users :: "(User \<times> time option) list"
  tbl_programs :: "Program list"
  tbl_program_workouts :: "ProgramWorkout list"
  tbl_program_workout_exercises :: "ProgramWorkoutExercise list"
  tbl_user_programs :: "UserProgram list"
  user_programs_id_seq :: int
  tbl_workouts :: "WorkoutSession list"
  tbl_workout_exercises :: "WorkoutExerciseLog list"
  workout_exercises_id_seq :: int

definition int4_ok :: "int \<Rightarrow> bool" where
  \<comment> \<open>The range of an \<^verbatim>\<open>INTEGER\<close> column; the driver refuses to encode a value outside it.\<close>
  "int4_ok n = (- 2147483648 \<le> n \<and> n \<le> 2147483647)"

section \<open>The program repository\<close>

text \<open>
  \<^verbatim>\<open>programRepository\<close> (the file beginning \<^verbatim>\<open>// repository/program_repo.go\<close>): each
  method is its SQL statement run on the store. \<^verbatim>\<open>QueryRow\<close> takes the first row of the
  result; a \<^verbatim>\<open>SELECT\<close> without \<^verbatim>\<open>ORDER BY\<close> is read in table order, and rows that tie
  under an \<^verbatim>\<open>ORDER BY\<close> keep their table order.
\<close>

definition GetProgramWorkouts :: "store \<Rightarrow> int \<Rightarrow> error + ProgramWorkout list" where
  "GetProgramWorkouts db programID =
     Inr (sort_key DayOfWeek (filter (\<lambda>w. pw_ProgramID w = programID) (tbl_program_workouts db)))"

definition GetProgramWorkoutExercises :: "store \<Rightarrow> int \<Rightarrow> error + ProgramWorkoutExercise list" where
  "GetProgramWorkoutExercises db workoutID =
     Inr (sort_key ExerciseOrder
            (filter (\<lambda>e. ProgramWorkoutID e = workoutID) (tbl_program_workout_exercises db)))"


definition CreateUserProgram :: "store \<Rightarrow> time \<Rightarrow> UserProgram \<Rightarrow> error + (UserProgram \<times> store)" where
  \<comment> \<open>\<^verbatim>\<open>INSERT INTO user_programs (user_id, program_id, start_date, is_active) ... RETURNING id, created_at\<close>\<close>
  "CreateUserProgram db now userProgram =
     (if \<not> int4_ok (up_ProgramID userProgram)
      then Inl (errorString ''value out of range for int4'')
      else if \<not> list_ex (\<lambda>(u, d). usr_ID u = up_UserID userProgram) (tbl_users db)
      then Inl (fk_violation ''user_programs'' ''user_programs_user_id_fkey'')
      else if \<not> list_ex (\<lambda>p. prg_ID p = up_ProgramID userProgram) (tbl_programs db)
      then Inl (fk_violation ''user_programs'' ''user_programs_program_id_fkey'')
      else let newID = user_programs_id_seq db + 1 in
        if list_ex (\<lambda>r. up_ID r = newID) (tbl_user_programs db)
        then Inl (unique_violation ''user_programs_pkey'')
        else let row = userProgram\<lparr>up_ID := newID, up_CreatedAt := now\<rparr>
             in Inr (row, db\<lparr>tbl_user_programs := tbl_user_programs db @ [row],
                             user_programs_id_seq := newID\<rparr>))"

definition GetUserActiveProgram :: "store \<Rightarrow> string \<Rightarrow> error + UserProgram" where
  \<comment> \<open>\<^verbatim>\<open>SELECT ... FROM user_programs WHERE user_id = $1 AND is_active = true\<close>\<close>
  "GetUserActiveProgram db userID =
     (case filter (\<lambda>r. up_UserID r = userID \<and> IsActive r) (tbl_user_programs db) of
        [] \<Rightarrow> Inl ErrNoRows
      | userProgram # _ \<Rightarrow> Inr userProgram)"

definition UpdateUserProgram :: "store \<Rightarrow> UserProgram \<Rightarrow> error + store" where
  \<comment> \<open>\<^verbatim>\<open>UPDATE user_programs SET is_active = $1 WHERE id = $2\<close>\<close>
  "UpdateUserProgram db userProgram =
     (let rows = length (filter (\<lambda>r. up_ID r = up_ID userProgram) (tbl_user_programs db))
      in if rows = 0 then Inl (errorString ''user program not found'')
         else Inr (db\<lparr>tbl_user_programs :=
                 map (\<lambda>r. if up_ID r = up_ID userProgram
                           then r\<lparr>IsActive := IsActive userProgram\<rparr> else r)
                     (tbl_user_programs db)\<rparr>))"



definition storableArray :: "int list \<Rightarrow> bool" where
  \<comment> \<open>An array as a \<^verbatim>\<open>NOT NULL\<close> \<^verbatim>\<open>INTEGER[]\<close> column with \<^verbatim>\<open>array_length(..., 1) > 0\<close>
      can hold it: not empty, 32-bit elements, at most 134217727 of them (the server's
      maximal array size).\<close>
  "storableArray xs = (xs \<noteq> [] \<and> list_all int4_ok xs \<and> length xs \<le> 134217727)"

definition CreateWorkoutExerciseLog ::
    "store \<Rightarrow> time \<Rightarrow> WorkoutExerciseLog \<Rightarrow> error + (WorkoutExerciseLog \<times> store)" where
  \<comment> \<open>\<^verbatim>\<open>INSERT INTO workout_exercises (workout_id, program_workout_exercise_id, actual_reps,
      actual_rir) ... RETURNING id, created_at\<close>, under the table's constraints: the two
      array columns are \<^verbatim>\<open>NOT NULL\<close> with \<^verbatim>\<open>array_length(..., 1) > 0\<close>, and
      \<^verbatim>\<open>same_number_of_sets\<close> requires equal lengths. A nil and an empty Go slice are both
      the list \<open>[]\<close>; the table accepts neither.\<close>
  "CreateWorkoutExerciseLog db now wlog =
     (if \<not> (int4_ok (WorkoutID wlog) \<and> int4_ok (ProgramWorkoutExerciseID wlog)
             \<and> list_all int4_ok (ActualReps wlog) \<and> list_all int4_ok (ActualRIR wlog))
      then Inl (errorString ''value out of range for int4'')
      else if length (ActualReps wlog) > 134217727 \<or> length (ActualRIR wlog) > 134217727
      then Inl (PgError ''ERROR: array size exceeds the maximum allowed (134217727) (SQLSTATE 54000)'')
      else if ActualReps wlog = []
      then Inl (check_violation ''workout_exercises'' ''workout_exercises_actual_reps_check'')
      else if ActualRIR wlog = []
      then Inl (check_violation ''workout_exercises'' ''workout_exercises_actual_rir_check'')
      else if length (ActualReps wlog) \<noteq> length (ActualRIR wlog)
      then Inl (check_violation ''workout_exercises'' ''same_number_of_sets'')
      else if \<not> list_ex (\<lambda>w. ws_ID w = WorkoutID wlog) (tbl_workouts db)
      then Inl (fk_violation ''workout_exercises'' ''workout_exercises_workout_id_fkey'')
      else if \<not> list_ex (\<lambda>e. pwe_ID e = ProgramWorkoutExerciseID wlog)
                   (tbl_program_workout_exercises db)
      then Inl (fk_violation ''workout_exercises''
                  ''workout_exercises_program_workout_exercise_id_fkey'')
      else let newID = workout_exercises_id_seq db + 1 in
        if list_ex (\<lambda>l. wel_ID l = newID) (tbl_workout_exercises db)
        then Inl (unique_violation ''workout_exercises_pkey'')
        else let row = wlog\<lparr>wel_ID := newID, wel_CreatedAt := now\<rparr>
             in Inr (row, db\<lparr>tbl_workout_exercises := tbl_workout_exercises db @ [row],
                             workout_exercises_id_seq := newID\<rparr>))"


section \<open>The program service\<close>

text \<open>
  \<^verbatim>\<open>programService\<close> of \<^verbatim>\<open>internal/services/program_service.go\<close>. A method that
  returns only an \<^verbatim>\<open>error\<close> yields \<open>error option\<close> (\<open>None\<close> is \<^verbatim>\<open>nil\<close>) and the store
  it leaves behind; \<open>now\<close> is the value of \<^verbatim>\<open>time.Now()\<close>.
\<close>

definition newUserProgram :: "string \<Rightarrow> int \<Rightarrow> time \<Rightarrow> UserProgram" where
  "newUserProgram userID programID now =
     \<lparr>up_ID = 0, up_UserID = userID, up_ProgramID = programID, StartDate = now,
      IsActive = True, up_CreatedAt = 0\<rparr>"

definition createNewUserProgram :: "store \<Rightarrow> time \<Rightarrow> string \<Rightarrow> int \<Rightarrow> error option \<times> store" where
  \<comment> \<open>The tail of \<^verbatim>\<open>AssignProgramToUser\<close>: build the new record and create it.\<close>
  "createNewUserProgram db now userID programID =
     (case CreateUserProgram db now (newUserProgram userID programID now) of
        Inl err \<Rightarrow> (Some err, db)
      | Inr (userProgram, db') \<Rightarrow> (None, db'))"

definition AssignProgramToUser :: "store \<Rightarrow> time \<Rightarrow> string \<Rightarrow> int \<Rightarrow> error option \<times> store" where
  "AssignProgramToUser db now userID programID =
     (case GetUserActiveProgram db userID of
        Inl err \<Rightarrow>
          if Error err \<noteq> ''sql: no rows in result set'' then (Some err, db)
          else createNewUserProgram db now userID programID
      | Inr currentProgram \<Rightarrow>
          (case UpdateUserProgram db (currentProgram\<lparr>IsActive := False\<rparr>) of
             Inl err \<Rightarrow> (Some err, db)
           | Inr db' \<Rightarrow> createNewUserProgram db' now userID programID))"

fun CompleteWorkoutSession ::
    "store \<Rightarrow> time \<Rightarrow> int \<Rightarrow> ExerciseLogRequest list \<Rightarrow> error option \<times> store" where
  "CompleteWorkoutSession db now sessionID [] = (None, db)"
| "CompleteWorkoutSession db now sessionID (exercise # exercises) =
     (case CreateWorkoutExerciseLog db now
             \<lparr>wel_ID = 0, WorkoutID = sessionID,
              ProgramWorkoutExerciseID = req_ProgramWorkoutExerciseID exercise,
              ActualReps = req_ActualReps exercise, ActualRIR = req_ActualRIR exercise,
              wel_CreatedAt = 0\<rparr> of
        Inl err \<Rightarrow> (Some err, db)
      | Inr (wlog, db') \<Rightarrow> CompleteWorkoutSession db' now sessionID exercises)"




definition initialWeight :: "User \<Rightarrow> ProgramWorkoutExercise \<Rightarrow> real" where
  \<comment> \<open>The body of the inner loop of \<^verbatim>\<open>CalculateInitialWeights\<close>.\<close>
  "initialWeight user exercise =
     (if PrescribedWeight exercise > 0 then of_int (PrescribedWeight exercise)
      else let baseStrength = calculateBaseStrength user;
               exerciseModifier = getExerciseModifier (ExerciseID exercise);
               suggestedWeight = baseStrength * exerciseModifier
           in math_Round (suggestedWeight / 2.5) * 2.5)"

fun initialWeightsExercises ::
    "User \<Rightarrow> ProgramWorkoutExercise list \<Rightarrow> (int \<rightharpoonup> real) \<Rightarrow> (int \<rightharpoonup> real)" where
  "initialWeightsExercises user [] weightMap = weightMap"
| "initialWeightsExercises user (exercise # exercises) weightMap =
     initialWeightsExercises user exercises
       (weightMap(pwe_ID exercise \<mapsto> initialWeight user exercise))"

fun initialWeightsWorkouts ::
    "store \<Rightarrow> User \<Rightarrow> ProgramWorkout list \<Rightarrow> (int \<rightharpoonup> real) \<Rightarrow> error + (int \<rightharpoonup> real)" where
  "initialWeightsWorkouts db user [] weightMap = Inr weightMap"
| "initialWeightsWorkouts db user (workout # workouts) weightMap =
     (case GetProgramWorkoutExercises db (pw_ID workout) of
        Inl err \<Rightarrow> Inl err
      | Inr exercises \<Rightarrow>
          initialWeightsWorkouts db user workouts
            (initialWeightsExercises user exercises weightMap))"

definition CalculateInitialWeights :: "store \<Rightarrow> User \<Rightarrow> int \<Rightarrow> error + (int \<rightharpoonup> real)" where
  "CalculateInitialWeights db user programID =
     (case GetProgramWorkouts db programID of
        Inl err \<Rightarrow> Inl err
      | Inr workouts \<Rightarrow> initialWeightsWorkouts db user workouts Map.empty)"

section \<open>Notions used in the statements\<close>

definition activePrograms :: "store \<Rightarrow> string \<Rightarrow> UserProgram list" where
  \<comment> \<open>The rows of \<^verbatim>\<open>user_programs\<close> that are active for a user.\<close>
  "activePrograms db userID =
     filter (\<lambda>r. up_UserID r = userID \<and> IsActive r) (tbl_user_programs db)"

definition persistedBy :: "store \<Rightarrow> store \<Rightarrow> WorkoutExerciseLog list" where
  \<comment> \<open>The rows of \<^verbatim>\<open>workout_exercises\<close> that a run from \<open>db\<close> to \<open>db'\<close> appended.\<close>
  "persistedBy db db' = drop (length (tbl_workout_exercises db)) (tbl_workout_exercises db')"

definition sameContent :: "WorkoutExerciseLog \<Rightarrow> ExerciseLogRequest \<Rightarrow> bool" where
  \<comment> \<open>A stored log carries the identifier and the two arrays of a request unchanged.\<close>
  "sameContent l e =
     (ProgramWorkoutExerciseID l = req_ProgramWorkoutExerciseID e
      \<and> ActualReps l = req_ActualReps e \<and> ActualRIR l = req_ActualRIR e)"



definition completedRun ::
    "store \<Rightarrow> int \<Rightarrow> ExerciseLogRequest list \<Rightarrow> error option \<times> store
      \<Rightarrow> WorkoutExerciseLog list \<Rightarrow> bool" where
  \<comment> \<open>What a run of \<^verbatim>\<open>CompleteWorkoutSession\<close> with result \<open>res\<close> leaves behind: it appended
      the rows \<open>new\<close>, which copy the first requests in order, belong to the session, and
      satisfy the table's constraints; it returned \<^verbatim>\<open>nil\<close> exactly when every request
      was stored.\<close>
  "completedRun db sessionID exercises res new =
     (tbl_workout_exercises (snd res) = tbl_workout_exercises db @ new
        \<and> list_all2 sameContent new (take (length new) exercises)
        \<and> list_all (\<lambda>l. WorkoutID l = sessionID) new
        \<and> list_all (\<lambda>l. length (ActualReps l) = length (ActualRIR l)) new
        \<and> list_all (\<lambda>l. ActualRIR l \<noteq> [] \<and> ActualReps l \<noteq> []) new
        \<and> list_all (\<lambda>l. storableArray (ActualRIR l)) new
        \<and> (fst res = None) = (length new = length exercises))"

section \<open>The user repository and the profile update\<close>

text \<open>
  The values of an update map, \<^verbatim>\<open>map[string]interface{}\<close>: a dynamic value is of one
  Go type, and a type assertion \<^verbatim>\<open>value.(T)\<close> succeeds exactly on values of type
  \<^verbatim>\<open>T\<close>. The handler decodes the map from JSON, which yields \<^verbatim>\<open>float64\<close> for every
  number (always finite), \<^verbatim>\<open>string\<close>, \<^verbatim>\<open>bool\<close>, \<^verbatim>\<open>nil\<close>, or a nested array or
  object (\<open>VOther\<close>); \<open>VInt\<close> is a Go \<^verbatim>\<open>int\<close>, which only a caller other than the JSON
  handler can pass.
\<close>

datatype dyn = VNil | VBool bool | VFloat64 real | VInt int | VString string | VOther

definition isSpace :: "char \<Rightarrow> bool" where
  \<comment> \<open>The ASCII white space of \<^verbatim>\<open>strings.TrimSpace\<close>: tab, line feed, vertical tab,
      form feed, carriage return, space. Names are taken to be ASCII text; on other text
      Go also trims Unicode white space.\<close>
  "isSpace c = (c \<in> set [CHR 0x09, CHR 0x0A, CHR 0x0B, CHR 0x0C, CHR 0x0D, CHR 0x20])"

definition TrimSpace :: "string \<Rightarrow> string" where
  "TrimSpace s = rev (dropWhile isSpace (rev (dropWhile isSpace s)))"

definition validGoals :: "string list" where
  "validGoals = [''weight_loss'', ''muscle_gain'', ''maintenance'', ''endurance'']"

definition validActivityLevels :: "string list" where
  "validActivityLevels =
     [''sedentary'', ''lightly_active'', ''moderately_active'', ''very_active'', ''extra_active'']"

definition applyProfileUpdate :: "User \<Rightarrow> string \<Rightarrow> dyn \<Rightarrow> User" where
  \<comment> \<open>One iteration of the loop of \<^verbatim>\<open>validateAndApplyProfileUpdates\<close>: the \<^verbatim>\<open>switch\<close> on
      the key.\<close>
  "applyProfileUpdate user key value =
     (if key = ''weight'' then
        (case value of
           VFloat64 weight \<Rightarrow> if weight \<ge> 20 \<and> weight \<le> 500 then user\<lparr>Weight := weight\<rparr> else user
         | _ \<Rightarrow> user)
      else if key = ''height'' then
        (case value of
           VFloat64 height \<Rightarrow> if height \<ge> 30 \<and> height \<le> 250 then user\<lparr>Height := height\<rparr> else user
         | _ \<Rightarrow> user)
      else if key = ''age'' then
        (case value of
           VInt age \<Rightarrow> if age \<ge> 13 \<and> age \<le> 120 then user\<lparr>Age := age\<rparr> else user
         | _ \<Rightarrow> user)
      else if key = ''goal'' then
        (case value of
           VString goal \<Rightarrow> if goal \<in> set validGoals then user\<lparr>Goal := goal\<rparr> else user
         | _ \<Rightarrow> user)
      else if key = ''program_id'' then
        (case value of
           VInt program_id \<Rightarrow> if program_id > 0 then user\<lparr>usr_ProgramID := program_id\<rparr> else user
         | _ \<Rightarrow> user)
      else if key = ''activity_level'' then
        (case value of
           VString activityLevel \<Rightarrow>
             if activityLevel \<in> set validActivityLevels
             then user\<lparr>ActivityLevel := activityLevel\<rparr> else user
         | _ \<Rightarrow> user)
      else if key = ''weekly_budget'' then
        (case value of
           VFloat64 budget \<Rightarrow> if budget \<ge> 0 then user\<lparr>WeeklyBudget := budget\<rparr> else user
         | _ \<Rightarrow> user)
      else if key = ''name'' then
        (case value of
           VString name \<Rightarrow>
             if TrimSpace name \<noteq> '''' then user\<lparr>Name := TrimSpace name\<rparr> else user
         | _ \<Rightarrow> user)
      else user)"

definition validateAndApplyProfileUpdates ::
    "User \<Rightarrow> (string \<times> dyn) list \<Rightarrow> error option \<times> User" where
  \<comment> \<open>The update map is given as the list of its entries in the order the \<^verbatim>\<open>range\<close>
      loop visits them (any order; the keys of a map are distinct). The method mutates
      the user through its pointer and returns \<^verbatim>\<open>nil\<close>.\<close>
  "validateAndApplyProfileUpdates user updates =
     (None, foldl (\<lambda>user (key, value). applyProfileUpdate user key value) user updates)"

definition GetUserByID :: "store \<Rightarrow> string \<Rightarrow> error + User" where
  \<comment> \<open>\<^verbatim>\<open>SELECT ... FROM users WHERE id = $1 AND deleted_at IS NULL\<close>\<close>
  "GetUserByID db ident =
     (case filter (\<lambda>(u, deleted_at). usr_ID u = ident \<and> deleted_at = None) (tbl_users db) of
        [] \<Rightarrow> Inl (wrapError ''failed to get user by ID: '' ErrNoRows)
      | (user, deleted_at) # _ \<Rightarrow> Inr user)"

definition users_constraints :: "User \<Rightarrow> bool" where
  \<comment> \<open>The column types and CHECK constraints of the \<^verbatim>\<open>users\<close> table on the columns that
      \<^verbatim>\<open>UpdateUser\<close> writes.\<close>
  "users_constraints u =
     (length (Email u) \<le> 255 \<and> length (Name u) \<le> 100
      \<and> 13 \<le> Age u \<and> Age u \<le> 120
      \<and> Sex u \<in> set [''male'', ''female'', ''other'']
      \<and> 30 \<le> Height u \<and> Height u \<le> 250
      \<and> 20 \<le> Weight u \<and> Weight u \<le> 500
      \<and> ActivityLevel u \<in> set validActivityLevels
      \<and> Goal u \<in> set validGoals
      \<and> 0 < usr_ProgramID u \<and> int4_ok (usr_ProgramID u)
      \<and> \<bar>WeeklyBudget u\<bar> < 99999999.995)"

definition writeUser :: "User \<Rightarrow> time \<Rightarrow> User \<Rightarrow> User" where
  \<comment> \<open>The \<^verbatim>\<open>SET\<close> list of \<^verbatim>\<open>UpdateUser\<close> applied to a stored row.\<close>
  "writeUser user now row =
     row\<lparr>Email := Email user, Name := Name user, Age := Age user, Sex := Sex user,
         Height := Height user, Weight := Weight user, ActivityLevel := ActivityLevel user,
         Goal := Goal user, usr_ProgramID := usr_ProgramID user,
         WeeklyBudget := WeeklyBudget user, UpdatedAt := now\<rparr>"

definition UpdateUser :: "store \<Rightarrow> time \<Rightarrow> User \<Rightarrow> error + store" where
  \<comment> \<open>\<^verbatim>\<open>UPDATE users SET email = $2, name = $3, ..., updated_at = $12
      WHERE id = $1 AND deleted_at IS NULL\<close>. The uniqueness of \<^verbatim>\<open>email\<close> is not
      modelled: the profile update writes back the email it read.\<close>
  "UpdateUser db now user =
     (if \<not> list_ex (\<lambda>(u, deleted_at). usr_ID u = usr_ID user \<and> deleted_at = None) (tbl_users db)
      then Inl (errorString ''user not found or already deleted'')
      else if \<not> users_constraints user
      then Inl (wrapError ''failed to update user: ''
                  (PgError ''ERROR: new row for relation users violates a constraint''))
      else Inr (db\<lparr>tbl_users :=
              map (\<lambda>(u, deleted_at).
                     if usr_ID u = usr_ID user \<and> deleted_at = None
                     then (writeUser user now u, deleted_at) else (u, deleted_at))
                  (tbl_users db)\<rparr>))"

section \<open>The user service\<close>

definition UpdateUserProfile ::
    "store \<Rightarrow> time \<Rightarrow> string \<Rightarrow> (string \<times> dyn) list \<Rightarrow> (error + User) \<times> store" where
  "UpdateUserProfile db now userID updates =
     (case GetUserByID db userID of
        Inl err \<Rightarrow> (Inl (wrapError ''user not found: '' err), db)
      | Inr user \<Rightarrow>
          (case validateAndApplyProfileUpdates user updates of
             (Some err, user') \<Rightarrow> (Inl err, db)
           | (None, user') \<Rightarrow>
               (case UpdateUser db now user' of
                  Inl err \<Rightarrow> (Inl (wrapError ''failed to update user profile: '' err), db)
                | Inr db' \<Rightarrow> (Inr (user'\<lparr>PasswordHash := ''''\<rparr>), db'))))"

section \<open>The user handler\<close>

text \<open>
  \<^verbatim>\<open>UserHandler.UpdateUser\<close> of \<^verbatim>\<open>internal/api/handlers/user_handler.go\<close>, the only
  caller of \<^verbatim>\<open>UpdateUserProfile\<close>. It binds the JSON body to a
  \<^verbatim>\<open>map[string]interface{}\<close>: Go's decoder stores every JSON number as a \<^verbatim>\<open>float64\<close>,
  a string as a \<^verbatim>\<open>string\<close>, a boolean as a \<^verbatim>\<open>bool\<close>, \<^verbatim>\<open>null\<close> as \<^verbatim>\<open>nil\<close>, and an
  array or object as a slice or map. The body is given by the members of its object
  (distinct keys); a body that is not valid JSON is answered with status 400 before the
  service is called and is not part of the model. The handler answers with status 200
  and the user, or with status 500 and the text of the error.
\<close>

datatype json = JNull | JBool bool | JNumber real | JString string
  | JArray "json list" | JObject "(string \<times> json) list"

definition decode :: "json \<Rightarrow> dyn" where
  "decode j =
     (case j of
        JNull \<Rightarrow> VNil
      | JBool b \<Rightarrow> VBool b
      | JNumber x \<Rightarrow> VFloat64 x
      | JString s \<Rightarrow> VString s
      | JArray _ \<Rightarrow> VOther
      | JObject _ \<Rightarrow> VOther)"

datatype response = StatusOK User | StatusInternalServerError string

definition UserHandler_UpdateUser ::
    "store \<Rightarrow> time \<Rightarrow> string \<Rightarrow> (string \<times> json) list \<Rightarrow> response \<times> store" where
  "UserHandler_UpdateUser db now userID body =
     (let updates = map (\<lambda>(key, j). (key, decode j)) body in
      case UpdateUserProfile db now userID updates of
        (Inl err, db') \<Rightarrow> (StatusInternalServerError (Error err), db')
      | (Inr user, db') \<Rightarrow> (StatusOK user, db'))"

section \<open>The tests of the update loop on the two integer fields\<close>

text \<open>
  The cases \<^verbatim>\<open>"age"\<close> and \<^verbatim>\<open>"program_id"\<close> of the switch store the value when
  \<^verbatim>\<open>value.(int)\<close> succeeds and the integer is in range: what the code accepts for these
  two fields, as opposed to what the specification calls valid below.
\<close>

definition assertedAge :: "dyn \<Rightarrow> int option" where
  \<comment> \<open>\<^verbatim>\<open>if age, ok := value.(int); ok && age >= 13 && age <= 120\<close>\<close>
  "assertedAge v = (case v of VInt age \<Rightarrow> if age \<ge> 13 \<and> age \<le> 120 then Some age else None | _ \<Rightarrow> None)"

definition assertedProgramID :: "dyn \<Rightarrow> int option" where
  \<comment> \<open>\<^verbatim>\<open>if program_id, ok := value.(int); ok && program_id > 0\<close>\<close>
  "assertedProgramID v =
     (case v of VInt program_id \<Rightarrow> if program_id > 0 then Some program_id else None | _ \<Rightarrow> None)"

section \<open>The validation gates, in the specification's words\<close>

text \<open>
  What the specification calls a valid presented value, field by field: the value lies
  in the field's closed range or set. An age is a whole number from 13 to 120 and a
  program identifier a positive whole number, however the number is presented: as a Go
  \<^verbatim>\<open>int\<close>, or as the \<^verbatim>\<open>float64\<close> that a JSON number becomes. \<open>fieldAfter\<close> is the
  per-field policy: a field keeps its old value unless a valid value is presented for
  it.
\<close>

definition wholeNumber :: "dyn \<Rightarrow> int option" where
  \<comment> \<open>The integer a presented number stands for, if it stands for one.\<close>
  "wholeNumber v =
     (case v of
        VInt n \<Rightarrow> Some n
      | VFloat64 x \<Rightarrow> if x = of_int \<lfloor>x\<rfloor> then Some \<lfloor>x\<rfloor> else None
      | _ \<Rightarrow> None)"

definition validWeight :: "dyn \<Rightarrow> real option" where
  "validWeight v = (case v of VFloat64 w \<Rightarrow> if 20 \<le> w \<and> w \<le> 500 then Some w else None | _ \<Rightarrow> None)"

definition validHeight :: "dyn \<Rightarrow> real option" where
  "validHeight v = (case v of VFloat64 h \<Rightarrow> if 30 \<le> h \<and> h \<le> 250 then Some h else None | _ \<Rightarrow> None)"

definition validAge :: "dyn \<Rightarrow> int option" where
  "validAge v =
     (case wholeNumber v of Some a \<Rightarrow> if 13 \<le> a \<and> a \<le> 120 then Some a else None | None \<Rightarrow> None)"

definition validGoal :: "dyn \<Rightarrow> string option" where
  "validGoal v = (case v of VString g \<Rightarrow> if g \<in> set validGoals then Some g else None | _ \<Rightarrow> None)"

definition validProgramID :: "dyn \<Rightarrow> int option" where
  "validProgramID v =
     (case wholeNumber v of Some p \<Rightarrow> if 0 < p then Some p else None | None \<Rightarrow> None)"

definition validActivityLevel :: "dyn \<Rightarrow> string option" where
  "validActivityLevel v =
     (case v of VString a \<Rightarrow> if a \<in> set validActivityLevels then Some a else None | _ \<Rightarrow> None)"

definition validBudget :: "dyn \<Rightarrow> real option" where
  "validBudget v = (case v of VFloat64 b \<Rightarrow> if 0 \<le> b then Some b else None | _ \<Rightarrow> None)"

definition validName :: "dyn \<Rightarrow> string option" where
  \<comment> \<open>A name is valid when it is not blank; it is stored trimmed.\<close>
  "validName v =
     (case v of VString n \<Rightarrow> if TrimSpace n \<noteq> '''' then Some (TrimSpace n) else None | _ \<Rightarrow> None)"

definition fieldAfter :: "(dyn \<Rightarrow> 'a option) \<Rightarrow> 'a \<Rightarrow> dyn option \<Rightarrow> 'a" where
  "fieldAfter valid old presented =
     (case presented of
        None \<Rightarrow> old
      | Some v \<Rightarrow> (case valid v of None \<Rightarrow> old | Some x \<Rightarrow> x))"

section \<open>An example store\<close>

text \<open>
  A small store on which the theorems below are exercised: two users (only Janet is
  enrolled), two programs, program 1 with two workouts and three exercises, and two
  completed sessions of workout 1 by Janet, the later one with two exercise logs.
\<close>

definition janet :: User where
  "janet = \<lparr>usr_ID = ''u1'', Email = ''janet@example.com'', PasswordHash = ''hash1'',
     Name = ''Janet'', Age = 30, Sex = ''female'', Height = 170, Weight = 65,
     ActivityLevel = ''sedentary'', Goal = ''maintenance'', usr_ProgramID = 1,
     WeeklyBudget = 0, usr_CreatedAt = 1000, UpdatedAt = 1000\<rparr>"

definition omar :: User where
  "omar = \<lparr>usr_ID = ''u2'', Email = ''omar@example.com'', PasswordHash = ''hash2'',
     Name = ''Omar'', Age = 41, Sex = ''male'', Height = 180, Weight = 80,
     ActivityLevel = ''very_active'', Goal = ''muscle_gain'', usr_ProgramID = 1,
     WeeklyBudget = 50, usr_CreatedAt = 1500, UpdatedAt = 1500\<rparr>"

definition example_store :: store where
  "example_store =
     \<lparr>tbl_users = [(janet, None), (omar, None)],
      tbl_programs =
        [\<lparr>prg_ID = 1, prg_Name = ''Program A'', prg_Description = '''', prg_Goal = ''strength'',
          EstimatedWeeks = 8, prg_CreatedAt = 100\<rparr>,
         \<lparr>prg_ID = 2, prg_Name = ''Program B'', prg_Description = '''', prg_Goal = ''hypertrophy'',
          EstimatedWeeks = 12, prg_CreatedAt = 100\<rparr>],
      tbl_program_workouts =
        [\<lparr>pw_ID = 1, pw_ProgramID = 1, pw_Name = ''Push'', DayOfWeek = 1, pw_Description = ''''\<rparr>,
         \<lparr>pw_ID = 2, pw_ProgramID = 1, pw_Name = ''Pull'', DayOfWeek = 2, pw_Description = ''''\<rparr>],
      tbl_program_workout_exercises =
        [\<lparr>pwe_ID = 10, ProgramWorkoutID = 1, ExerciseID = 1, Sets = 3, Reps = 8, TargetRIR = 2,
          PrescribedWeight = 0, ExerciseOrder = 1, Notes = ''''\<rparr>,
         \<lparr>pwe_ID = 11, ProgramWorkoutID = 1, ExerciseID = 2, Sets = 3, Reps = 10, TargetRIR = 2,
          PrescribedWeight = 42, ExerciseOrder = 2, Notes = ''''\<rparr>,
         \<lparr>pwe_ID = 12, ProgramWorkoutID = 2, ExerciseID = 4, Sets = 5, Reps = 5, TargetRIR = 3,
          PrescribedWeight = 0, ExerciseOrder = 1, Notes = ''''\<rparr>],
      tbl_user_programs =
        [\<lparr>up_ID = 1, up_UserID = ''u1'', up_ProgramID = 1, StartDate = 1000, IsActive = True,
          up_CreatedAt = 1000\<rparr>],
      user_programs_id_seq = 1,
      tbl_workouts =
        [\<lparr>ws_ID = 1, UserProgramID = 1, ws_ProgramWorkoutID = 1, CompletedDate = 2000,
          ws_Notes = '''', ws_CreatedAt = 2000\<rparr>,
         \<lparr>ws_ID = 2, UserProgramID = 1, ws_ProgramWorkoutID = 1, CompletedDate = 3000,
          ws_Notes = '''', ws_CreatedAt = 3000\<rparr>],
      tbl_workout_exercises =
        [\<lparr>wel_ID = 1, WorkoutID = 1, ProgramWorkoutExerciseID = 10, ActualReps = [8, 8, 8],
          ActualRIR = [2, 2, 2], wel_CreatedAt = 2001\<rparr>,
         \<lparr>wel_ID = 2, WorkoutID = 2, ProgramWorkoutExerciseID = 10, ActualReps = [8, 8, 8],
          ActualRIR = [4, 4, 4], wel_CreatedAt = 3001\<rparr>,
         \<lparr>wel_ID = 3, WorkoutID = 2, ProgramWorkoutExerciseID = 11, ActualReps = [10, 9],
          ActualRIR = [1, 0], wel_CreatedAt = 3002\<rparr>],
      workout_exercises_id_seq = 3\<rparr>"

text \<open>Workout 1 of program 1 and its exercise with a prescribed weight, as stored above.\<close>

definition example_push :: ProgramWorkout where
  "example_push =
     \<lparr>pw_ID = 1, pw_ProgramID = 1, pw_Name = ''Push'', DayOfWeek = 1, pw_Description = ''''\<rparr>"

definition example_press :: ProgramWorkoutExercise where
  "example_press =
     \<lparr>pwe_ID = 11, ProgramWorkoutID = 1, ExerciseID = 2, Sets = 3, Reps = 10, TargetRIR = 2,
      PrescribedWeight = 42, ExerciseOrder = 2, Notes = ''''\<rparr>"
section \<open>Properties of the calculator\<close>

lemma calculateWeightAdjustment_Finite:
  "calculateWeightAdjustment (Finite a) (Finite t) =
     (if 2 \<le> t - a then 0.9
      else if t - a \<le> - 2 then 1.1
      else if 1 \<le> t - a then 0.95
      else if t - a \<le> - 1 then 1.05
      else 1)"
  by (simp add: calculateWeightAdjustment_def)

lemma int64_id: "- (2 ^ 63) \<le> n \<Longrightarrow> n < 2 ^ 63 \<Longrightarrow> int64 n = n"
  by (simp add: int64_def)

lemma calculateAverageRIR_444: "calculateAverageRIR [4, 4, 4] = Finite 4"
  by (simp add: calculateAverageRIR_def float64_of_int_def int64_def)

text \<open>
  Claim C1. \<^verbatim>\<open>calculateWeightAdjustment\<close> is a total function of the real-valued
  difference \<open>d = targetRIR - averageRIR\<close>: the result is the first matching tier
  (0.90 if \<open>d \<ge> 2\<close>, else 1.10 if \<open>d \<le> -2\<close>, else 0.95 if \<open>d \<ge> 1\<close>, else 1.05 if
  \<open>d \<le> -1\<close>, else 1.00), hence always one of the five multipliers, and each
  multiplier is returned on exactly one interval of \<open>d\<close>. With target RIR 2 and
  actual RIR \<open>[4, 4, 4]\<close> the average is 4, the difference is \<open>-2\<close> and the
  multiplier is 1.10.
\<close>

theorem calculateWeightAdjustment_tiers:
  fixes a t :: real
  defines "d \<equiv> t - a"
  defines "r \<equiv> calculateWeightAdjustment (Finite a) (Finite t)"
  shows "r = (if 2 \<le> d then 0.9 else if d \<le> - 2 then 1.1 else if 1 \<le> d then 0.95
              else if d \<le> - 1 then 1.05 else 1)
    \<and> r \<in> {0.9, 0.95, 1, 1.05, 1.1}
    \<and> (r = 0.9) = (2 \<le> d)
    \<and> (r = 1.1) = (d \<le> - 2)
    \<and> (r = 0.95) = (1 \<le> d \<and> d < 2)
    \<and> (r = 1.05) = (- 2 < d \<and> d \<le> - 1)
    \<and> (r = 1) = (- 1 < d \<and> d < 1)
    \<and> calculateAverageRIR [4, 4, 4] = Finite 4
    \<and> f64_sub (float64_of_int 2) (calculateAverageRIR [4, 4, 4]) = Finite (- 2)
    \<and> calculateWeightAdjustment (calculateAverageRIR [4, 4, 4]) (float64_of_int 2) = 1.1"
proof -
  have tiers: "r = (if 2 \<le> d then 0.9 else if d \<le> - 2 then 1.1 else if 1 \<le> d then 0.95
              else if d \<le> - 1 then 1.05 else 1)"
    unfolding r_def d_def by (rule calculateWeightAdjustment_Finite)
  have scenario: "calculateWeightAdjustment (calculateAverageRIR [4, 4, 4]) (float64_of_int 2) = 1.1"
    by (simp add: calculateAverageRIR_444 float64_of_int_def calculateWeightAdjustment_Finite)
  have diff: "f64_sub (float64_of_int 2) (calculateAverageRIR [4, 4, 4]) = Finite (- 2)"
    by (simp add: calculateAverageRIR_444 float64_of_int_def)
  from tiers have "r \<in> {0.9, 0.95, 1, 1.05, 1.1}"
    by (simp split: if_splits)
  moreover from tiers have "(r = 0.9) = (2 \<le> d)" by (simp split: if_splits)
  moreover from tiers have "(r = 1.1) = (d \<le> - 2)" by (simp split: if_splits)
  moreover from tiers have "(r = 0.95) = (1 \<le> d \<and> d < 2)" by (auto split: if_splits)
  moreover from tiers have "(r = 1.05) = (- 2 < d \<and> d \<le> - 1)" by (auto split: if_splits)
  moreover from tiers have "(r = 1) = (- 1 < d \<and> d < 1)" by (auto split: if_splits)
  ultimately show ?thesis
    using tiers scenario diff calculateAverageRIR_444 by blast
qed

text \<open>
  A NaN average (an empty RIR array) fails every comparison and falls through to the
  default tier.
\<close>

lemma calculateWeightAdjustment_NaN: "calculateWeightAdjustment NaN t = 1"
  by (cases t) (simp_all add: calculateWeightAdjustment_def)

text \<open>
  What \<^verbatim>\<open>calculateBaseStrength\<close> computes for the ages the \<^verbatim>\<open>users\<close> table admits:
  the integer quotients \<^verbatim>\<open>(Age-13)/120\<close> and \<^verbatim>\<open>(Age-35)/100\<close> are 0 on the whole
  range, so the age factor is the constant 0.9 below 25, the constant 1.1 above 35, and
  absent from 25 to 35.
\<close>

lemma go_quo_small: "0 \<le> a \<Longrightarrow> a < b \<Longrightarrow> go_quo a b = 0"
  by (simp add: go_quo_def)

lemma calculateBaseStrength_bands:
  assumes "13 \<le> Age user" and "Age user \<le> 120"
  shows "calculateBaseStrength user =
     Weight user * 0.6 * (if Sex user = ''male'' then 1.2 else 1)
       * (if Age user < 25 then 0.9 else if Age user > 35 then 1.1 else 1)"
proof -
  have "int64 (Age user - 13) = Age user - 13" "int64 (Age user - 35) = Age user - 35"
    using assms by (simp_all add: int64_id)
  moreover have "go_quo (Age user - 13) 120 = 0"
    "Age user > 35 \<Longrightarrow> go_quo (Age user - 35) 100 = 0"
    using assms by (simp_all add: go_quo_small)
  ultimately show ?thesis
    by (simp add: calculateBaseStrength_def Let_def)
qed

text \<open>
  Claim C2 (the code departs from it). The claim gives the age factor
  \<open>0.9 + (a - 13) / 120\<close> below 25 and \<open>1.1 - (a - 35) / 100\<close> above 35. For a user of
  100 kg, not male, aged 19, that is \<open>100 * 0.6 * 0.95 = 57\<close>; the code computes
  \<open>(19 - 13) / 120\<close> on integers, which is 0, and returns \<open>100 * 0.6 * 0.9 = 54\<close>. At
  age 85 the claim gives \<open>60 * 0.6 = 36\<close> and the code \<open>60 * 1.1 = 66\<close>.
\<close>

theorem calculateBaseStrength_age_19_and_85:
  "calculateBaseStrength \<lparr>usr_ID = ''u'', Email = ''e'', PasswordHash = ''h'', Name = ''n'',
      Age = 19, Sex = ''female'', Height = 170, Weight = 100, ActivityLevel = ''sedentary'',
      Goal = ''maintenance'', usr_ProgramID = 1, WeeklyBudget = 0, usr_CreatedAt = 0,
      UpdatedAt = 0\<rparr> = 54
   \<and> (100 :: real) * 0.6 * (0.9 + (19 - 13) / 120) = 57
   \<and> calculateBaseStrength \<lparr>usr_ID = ''u'', Email = ''e'', PasswordHash = ''h'', Name = ''n'',
      Age = 85, Sex = ''female'', Height = 170, Weight = 100, ActivityLevel = ''sedentary'',
      Goal = ''maintenance'', usr_ProgramID = 1, WeeklyBudget = 0, usr_CreatedAt = 0,
      UpdatedAt = 0\<rparr> = 66
   \<and> (100 :: real) * 0.6 * (1.1 - (85 - 35) / 100) = 36"
  by (simp add: calculateBaseStrength_def go_quo_def int64_def)

lemma getExerciseModifier_table:
  "getExerciseModifier 1 = 1.0" "getExerciseModifier 2 = 0.8" "getExerciseModifier 3 = 1.2"
  "getExerciseModifier 4 = 1.1" "getExerciseModifier 5 = 0.5"
  by (simp_all add: getExerciseModifier_def modifiers_def)

lemma getExerciseModifier_unknown:
  "exerciseID \<notin> {1, 2, 3, 4, 5} \<Longrightarrow> getExerciseModifier exerciseID = 0"
  by (simp add: getExerciseModifier_def modifiers_def)

text \<open>
  Claim C3 (the code departs from it). The claim promises a non-zero default multiplier
  for an exercise identifier outside the table. The lookup has no default: for the
  identifiers 6 and 0 (and every other identifier outside 1 to 5) it returns the zero
  value 0.
\<close>

theorem getExerciseModifier_6_is_zero:
  "getExerciseModifier 6 = 0 \<and> getExerciseModifier 0 = 0"
  by (simp add: getExerciseModifier_def modifiers_def)

section \<open>Program assignment\<close>

lemmas assign_defs = GetUserActiveProgram_def UpdateUserProgram_def CreateUserProgram_def
  createNewUserProgram_def newUserProgram_def AssignProgramToUser_def int4_ok_def
  fk_violation_def unique_violation_def check_violation_def

lemma GetUserActiveProgram_Inl:
  "GetUserActiveProgram db userID = Inl err \<Longrightarrow> err = ErrNoRows \<and> activePrograms db userID = []"
  by (auto simp: GetUserActiveProgram_def activePrograms_def split: list.splits)

lemma GetUserActiveProgram_Inr:
  "GetUserActiveProgram db userID = Inr cur \<Longrightarrow> \<exists>rest. activePrograms db userID = cur # rest"
  by (auto simp: GetUserActiveProgram_def activePrograms_def split: list.splits)

text \<open>
  The lookup of a user without an active program fails with \<^verbatim>\<open>pgx.ErrNoRows\<close>, whose
  text is not the one \<^verbatim>\<open>AssignProgramToUser\<close> compares with: the error is returned and
  the store is left as it was.
\<close>

lemma AssignProgramToUser_no_active:
  assumes "activePrograms db userID = []"
  shows "AssignProgramToUser db now userID programID = (Some ErrNoRows, db)"
proof -
  have "GetUserActiveProgram db userID = Inl ErrNoRows"
    using assms by (simp add: GetUserActiveProgram_def activePrograms_def)
  then show ?thesis
    by (simp add: AssignProgramToUser_def)
qed

lemma createNewUserProgram_None:
  assumes "createNewUserProgram db now userID programID = (None, db')"
  shows "\<exists>new. tbl_user_programs db' = tbl_user_programs db @ [new]
           \<and> up_UserID new = userID \<and> up_ProgramID new = programID
           \<and> StartDate new = now \<and> IsActive new
           \<and> \<not> list_ex (\<lambda>r. up_ID r = up_ID new) (tbl_user_programs db)"
  using assms
  by (auto simp: createNewUserProgram_def CreateUserProgram_def newUserProgram_def Let_def
           split: sum.splits if_splits)

lemma UpdateUserProgram_Inr:
  assumes "UpdateUserProgram db userProgram = Inr db'"
  shows "tbl_user_programs db' =
           map (\<lambda>r. if up_ID r = up_ID userProgram then r\<lparr>IsActive := IsActive userProgram\<rparr> else r)
               (tbl_user_programs db)"
  using assms by (auto simp: UpdateUserProgram_def Let_def split: if_splits)

lemma filter_singleton_eq:
  assumes "filter P xs = [c]" and "x \<in> set xs" and "P x"
  shows "x = c"
proof -
  from assms(2,3) have "x \<in> set (filter P xs)" by simp
  with assms(1) show ?thesis by simp
qed

text \<open>
  Claim C4. If a user has at most one active \<^verbatim>\<open>UserProgram\<close> row (the invariant of the
  data model) and \<^verbatim>\<open>AssignProgramToUser\<close> returns without error, then afterwards the
  user has exactly one active row: the newly created one, for the assigned program, with
  the assignment time as start date and an identifier no earlier row has. The table is
  the old table, with the row that was active set inactive in place, followed by the new
  row.
\<close>

theorem AssignProgramToUser_one_active:
  assumes ok: "AssignProgramToUser db now userID programID = (None, db')"
      and inv: "length (activePrograms db userID) \<le> 1"
  shows "\<exists>new. activePrograms db' userID = [new]
           \<and> up_UserID new = userID \<and> up_ProgramID new = programID
           \<and> StartDate new = now \<and> IsActive new
           \<and> \<not> list_ex (\<lambda>r. up_ID r = up_ID new) (tbl_user_programs db)
           \<and> tbl_user_programs db' =
               map (\<lambda>r. if up_ID r \<in> up_ID ` set (activePrograms db userID)
                         then r\<lparr>IsActive := False\<rparr> else r)
                   (tbl_user_programs db) @ [new]"
proof (cases "GetUserActiveProgram db userID")
  case (Inl err)
  then have "err = ErrNoRows" by (simp add: GetUserActiveProgram_Inl)
  with Inl ok show ?thesis by (simp add: AssignProgramToUser_def)
next
  case (Inr cur)
  then obtain rest where "activePrograms db userID = cur # rest"
    using GetUserActiveProgram_Inr by blast
  with inv have act: "activePrograms db userID = [cur]" by simp
  let ?P = "\<lambda>r. up_UserID r = userID \<and> IsActive r"
  let ?f = "\<lambda>r. if up_ID r = up_ID cur then r\<lparr>IsActive := False\<rparr> else r"
  from ok Inr obtain db1 where
    upd: "UpdateUserProgram db (cur\<lparr>IsActive := False\<rparr>) = Inr db1" and
    cre: "createNewUserProgram db1 now userID programID = (None, db')"
    by (auto simp: AssignProgramToUser_def split: sum.splits)
  from upd have rows1: "tbl_user_programs db1 = map ?f (tbl_user_programs db)"
    using UpdateUserProgram_Inr [OF upd] by simp
  from createNewUserProgram_None [OF cre] obtain new where
    new: "tbl_user_programs db' = tbl_user_programs db1 @ [new]"
      "up_UserID new = userID" "up_ProgramID new = programID" "StartDate new = now"
      "IsActive new" "\<not> list_ex (\<lambda>r. up_ID r = up_ID new) (tbl_user_programs db1)"
    by blast
  have none: "filter ?P (map ?f (tbl_user_programs db)) = []"
  proof -
    have step: "\<not> ?P (?f r)" if "r \<in> set (tbl_user_programs db)" for r
    proof (cases "?P r")
      case True
      with that act have "r = cur"
        unfolding activePrograms_def
        using filter_singleton_eq [of ?P "tbl_user_programs db" cur r] by blast
      then show ?thesis by simp
    next
      case False
      then show ?thesis by auto
    qed
    have "\<not> ?P x" if "x \<in> set (map ?f (tbl_user_programs db))" for x
    proof -
      from that obtain r where "r \<in> set (tbl_user_programs db)" and x: "x = ?f r"
        by (auto simp only: set_map)
      from step [OF this(1)] show ?thesis unfolding x .
    qed
    then show ?thesis
      unfolding filter_empty_conv by blast
  qed
  have ids: "map up_ID (tbl_user_programs db1) = map up_ID (tbl_user_programs db)"
    by (simp add: rows1)
  have ex_conv: "list_ex (\<lambda>r. up_ID r = n) xs = (n \<in> set (map up_ID xs))" for n xs
    by (auto simp: list_ex_iff)
  have fresh: "\<not> list_ex (\<lambda>r. up_ID r = up_ID new) (tbl_user_programs db)"
    using new(6) unfolding ex_conv ids .
  have "activePrograms db' userID = [new]"
    using new(1,2,5) none by (simp add: activePrograms_def rows1)
  moreover have "tbl_user_programs db' =
      map (\<lambda>r. if up_ID r \<in> up_ID ` set (activePrograms db userID)
                then r\<lparr>IsActive := False\<rparr> else r) (tbl_user_programs db) @ [new]"
    using new(1) by (simp add: rows1 act)
  ultimately show ?thesis
    using new(2-5) fresh by blast
qed

text \<open>
  The theorem at work: Janet, active on program 1, is assigned program 2 at time 5000.
\<close>

theorem AssignProgramToUser_one_active_witness:
  "AssignProgramToUser example_store 5000 ''u1'' 2
     = (None, snd (AssignProgramToUser example_store 5000 ''u1'' 2))
   \<and> length (activePrograms example_store ''u1'') \<le> 1
   \<and> (\<exists>new. activePrograms (snd (AssignProgramToUser example_store 5000 ''u1'' 2)) ''u1'' = [new]
           \<and> up_UserID new = ''u1'' \<and> up_ProgramID new = 2
           \<and> StartDate new = 5000 \<and> IsActive new
           \<and> \<not> list_ex (\<lambda>r. up_ID r = up_ID new) (tbl_user_programs example_store)
           \<and> tbl_user_programs (snd (AssignProgramToUser example_store 5000 ''u1'' 2)) =
               map (\<lambda>r. if up_ID r \<in> up_ID ` set (activePrograms example_store ''u1'')
                         then r\<lparr>IsActive := False\<rparr> else r)
                   (tbl_user_programs example_store) @ [new])"
proof -
  have run: "AssignProgramToUser example_store 5000 ''u1'' 2
     = (None, snd (AssignProgramToUser example_store 5000 ''u1'' 2))"
    by (simp add: assign_defs example_store_def janet_def omar_def Let_def)
  have inv: "length (activePrograms example_store ''u1'') \<le> 1"
    by (simp add: activePrograms_def example_store_def)
  show ?thesis
    using run inv AssignProgramToUser_one_active [OF run inv] by blast
qed

text \<open>
  Claim C5 (the code departs from it). The claim says that a user without an active
  program is assigned one: the missing row is absorbed and the new record created. Omar
  has no active program and is a user of the store, program 1 exists, yet
  \<^verbatim>\<open>AssignProgramToUser\<close> returns the lookup's error and creates nothing: the guard
  compares \<^verbatim>\<open>err.Error()\<close> with \<^verbatim>\<open>sql: no rows in result set\<close>, and the driver's error
  reads \<^verbatim>\<open>no rows in result set\<close>.
\<close>

theorem AssignProgramToUser_without_active_program_fails:
  "activePrograms example_store ''u2'' = []
   \<and> GetUserActiveProgram example_store ''u2'' = Inl ErrNoRows
   \<and> Error ErrNoRows = ''no rows in result set''
   \<and> AssignProgramToUser example_store 5000 ''u2'' 1 = (Some ErrNoRows, example_store)
   \<and> fst (createNewUserProgram example_store 5000 ''u2'' 1) = None"
  by (simp add: assign_defs activePrograms_def example_store_def janet_def omar_def Let_def)

section \<open>Completing a workout session\<close>

lemma CreateWorkoutExerciseLog_Inr:
  "CreateWorkoutExerciseLog db now l = Inr (row, db') \<Longrightarrow>
     ActualReps l \<noteq> [] \<and> ActualRIR l \<noteq> [] \<and> length (ActualReps l) = length (ActualRIR l)
     \<and> storableArray (ActualRIR l)
     \<and> row = l\<lparr>wel_ID := workout_exercises_id_seq db + 1, wel_CreatedAt := now\<rparr>
     \<and> db' = db\<lparr>tbl_workout_exercises := tbl_workout_exercises db @ [row],
                  workout_exercises_id_seq := workout_exercises_id_seq db + 1\<rparr>"
  unfolding CreateWorkoutExerciseLog_def Let_def storableArray_def
  by (clarsimp split: if_splits)

lemma completedRun_Nil: "completedRun db sessionID [] (None, db) []"
  by (simp add: completedRun_def)

lemma completedRun_failed: "completedRun db sessionID (e # es) (Some err, db) []"
  by (simp add: completedRun_def)

lemma completedRun_Cons:
  assumes "completedRun db1 sessionID es res new"
    and "tbl_workout_exercises db1 = tbl_workout_exercises db @ [row]"
    and "sameContent row e" "WorkoutID row = sessionID"
      "length (ActualReps row) = length (ActualRIR row)" "ActualRIR row \<noteq> []" "ActualReps row \<noteq> []"
      "storableArray (ActualRIR row)"
  shows "completedRun db sessionID (e # es) res (row # new)"
  using assms by (simp add: completedRun_def)

lemma CompleteWorkoutSession_completedRun:
  "\<exists>new. completedRun db sessionID exercises (CompleteWorkoutSession db now sessionID exercises) new"
proof (induction exercises arbitrary: db)
  case Nil
  show ?case using completedRun_Nil by auto
next
  case (Cons e es)
  let ?l = "\<lparr>wel_ID = 0, WorkoutID = sessionID,
      ProgramWorkoutExerciseID = req_ProgramWorkoutExerciseID e,
      ActualReps = req_ActualReps e, ActualRIR = req_ActualRIR e,
      wel_CreatedAt = 0\<rparr>"
  show ?case
  proof (cases "CreateWorkoutExerciseLog db now ?l")
    case (Inl err)
    then have run: "CompleteWorkoutSession db now sessionID (e # es) = (Some err, db)"
      by simp
    show ?thesis unfolding run using completedRun_failed by blast
  next
    case (Inr p)
    obtain row db1 where p: "p = (row, db1)" by (cases p)
    have cr: "CreateWorkoutExerciseLog db now ?l = Inr (row, db1)"
      using Inr p by simp
    note c = CreateWorkoutExerciseLog_Inr [OF cr]
    from Cons.IH [of db1] obtain new where
      new: "completedRun db1 sessionID es (CompleteWorkoutSession db1 now sessionID es) new" ..
    have run: "CompleteWorkoutSession db now sessionID (e # es)
        = CompleteWorkoutSession db1 now sessionID es"
      using cr by simp
    have tbl: "tbl_workout_exercises db1 = tbl_workout_exercises db @ [row]"
      using c by simp
    have row: "sameContent row e" "WorkoutID row = sessionID"
      "length (ActualReps row) = length (ActualRIR row)" "ActualRIR row \<noteq> []" "ActualReps row \<noteq> []"
      "storableArray (ActualRIR row)"
      using c by (simp_all add: sameContent_def)
    show ?thesis
      unfolding run using completedRun_Cons [OF new tbl row] by blast
  qed
qed

lemma persistedBy_append:
  "tbl_workout_exercises db' = tbl_workout_exercises db @ new \<Longrightarrow> persistedBy db db' = new"
  by (simp add: persistedBy_def)

section \<open>The constraints of the log table\<close>



text \<open>
  Claim C9. Whatever list of requests \<^verbatim>\<open>CompleteWorkoutSession\<close> is given, the rows it
  appends to \<^verbatim>\<open>workout_exercises\<close> are copies of the first requests in order, and in
  each of them the reps array and the RIR array have the same length: the service copies
  the arrays unchecked, and the table's \<^verbatim>\<open>same_number_of_sets\<close> constraint refuses the
  insert of any other row, which ends the run with that error. The run returns \<^verbatim>\<open>nil\<close>
  exactly when every request was stored.
\<close>

theorem CompleteWorkoutSession_equal_length:
  "\<exists>new. tbl_workout_exercises (snd (CompleteWorkoutSession db now sessionID exercises))
            = tbl_workout_exercises db @ new
        \<and> list_all2 sameContent new (take (length new) exercises)
        \<and> list_all (\<lambda>l. length (ActualReps l) = length (ActualRIR l)) new
        \<and> (fst (CompleteWorkoutSession db now sessionID exercises) = None)
            = (length new = length exercises)"
proof -
  from CompleteWorkoutSession_completedRun [of db sessionID exercises now] obtain new where
    "completedRun db sessionID exercises (CompleteWorkoutSession db now sessionID exercises) new" ..
  then have "tbl_workout_exercises (snd (CompleteWorkoutSession db now sessionID exercises))
            = tbl_workout_exercises db @ new
        \<and> list_all2 sameContent new (take (length new) exercises)
        \<and> list_all (\<lambda>l. length (ActualReps l) = length (ActualRIR l)) new
        \<and> (fst (CompleteWorkoutSession db now sessionID exercises) = None)
            = (length new = length exercises)"
    by (simp add: completedRun_def)
  then show ?thesis by (rule exI)
qed

text \<open>
  A run on the example store: the first request is stored, the second (two reps entries,
  one RIR entry) is refused by the constraint.
\<close>

theorem CompleteWorkoutSession_equal_length_witness:
  "fst (CompleteWorkoutSession example_store 4000 2
          [\<lparr>req_ProgramWorkoutExerciseID = 10, req_ActualReps = [8, 8, 7], req_ActualRIR = [2, 1, 0]\<rparr>,
           \<lparr>req_ProgramWorkoutExerciseID = 11, req_ActualReps = [10, 10], req_ActualRIR = [3]\<rparr>])
     = Some (check_violation ''workout_exercises'' ''same_number_of_sets'')
   \<and> persistedBy example_store (snd (CompleteWorkoutSession example_store 4000 2
          [\<lparr>req_ProgramWorkoutExerciseID = 10, req_ActualReps = [8, 8, 7], req_ActualRIR = [2, 1, 0]\<rparr>,
           \<lparr>req_ProgramWorkoutExerciseID = 11, req_ActualReps = [10, 10], req_ActualRIR = [3]\<rparr>]))
     = [\<lparr>wel_ID = 4, WorkoutID = 2, ProgramWorkoutExerciseID = 10, ActualReps = [8, 8, 7],
         ActualRIR = [2, 1, 0], wel_CreatedAt = 4000\<rparr>]
   \<and> (\<exists>new. tbl_workout_exercises (snd (CompleteWorkoutSession example_store 4000 2
          [\<lparr>req_ProgramWorkoutExerciseID = 10, req_ActualReps = [8, 8, 7], req_ActualRIR = [2, 1, 0]\<rparr>,
           \<lparr>req_ProgramWorkoutExerciseID = 11, req_ActualReps = [10, 10], req_ActualRIR = [3]\<rparr>]))
            = tbl_workout_exercises example_store @ new
        \<and> list_all (\<lambda>l. length (ActualReps l) = length (ActualRIR l)) new)"
proof -
  let ?reqs = "[\<lparr>req_ProgramWorkoutExerciseID = 10, req_ActualReps = [8, 8, 7], req_ActualRIR = [2, 1, 0]\<rparr>,
           \<lparr>req_ProgramWorkoutExerciseID = 11, req_ActualReps = [10, 10], req_ActualRIR = [3]\<rparr>]"
  have run: "CompleteWorkoutSession example_store 4000 2 ?reqs =
      (Some (check_violation ''workout_exercises'' ''same_number_of_sets''),
       example_store\<lparr>tbl_workout_exercises := tbl_workout_exercises example_store @
           [\<lparr>wel_ID = 4, WorkoutID = 2, ProgramWorkoutExerciseID = 10, ActualReps = [8, 8, 7],
             ActualRIR = [2, 1, 0], wel_CreatedAt = 4000\<rparr>],
          workout_exercises_id_seq := 4\<rparr>)"
    by (simp add: CreateWorkoutExerciseLog_def int4_ok_def example_store_def Let_def)
  from CompleteWorkoutSession_equal_length [of example_store 4000 2 ?reqs]
  have "\<exists>new. tbl_workout_exercises (snd (CompleteWorkoutSession example_store 4000 2 ?reqs))
            = tbl_workout_exercises example_store @ new
        \<and> list_all (\<lambda>l. length (ActualReps l) = length (ActualRIR l)) new"
    by blast
  then show ?thesis
    unfolding run by (simp add: persistedBy_def)
qed

lemma foldl_int64_sum:
  assumes "list_all int4_ok xs"
      and "\<bar>a\<bar> \<le> int m * 2147483648"
      and "m + length xs \<le> 2147483648"
  shows "foldl (\<lambda>sum rir. int64 (sum + rir)) a xs = a + sum_list xs"
  using assms
proof (induction xs arbitrary: a m)
  case Nil
  then show ?case by simp
next
  case (Cons x xs)
  from Cons.prems(1) have "int4_ok x" and xs: "list_all int4_ok xs"
    by simp_all
  then have x: "- 2147483648 \<le> x" "x \<le> 2147483647"
    by (simp_all add: int4_ok_def)
  from Cons.prems(3) have m: "int m \<le> 2147483647" and len: "Suc m + length xs \<le> 2147483648"
    by simp_all
  from Cons.prems(2) x have bound: "\<bar>a + x\<bar> \<le> int (Suc m) * 2147483648"
    by (simp add: algebra_simps)
  from m have "int (Suc m) * 2147483648 \<le> 2147483648 * 2147483648"
    by simp
  with bound have "- (2 ^ 63) \<le> a + x" "a + x < 2 ^ 63"
    by simp_all
  then have "int64 (a + x) = a + x" by (rule int64_id)
  with Cons.IH [OF xs bound len] show ?case
    by simp
qed

text \<open>
  The 64-bit sum of an array the table can hold does not wrap around, so the average is
  the arithmetic mean.
\<close>

lemma calculateAverageRIR_mean:
  assumes "storableArray rirArray"
  shows "calculateAverageRIR rirArray
           = Finite (of_int (sum_list rirArray) / of_nat (length rirArray))"
proof -
  from assms have ne: "rirArray \<noteq> []" and ok: "list_all int4_ok rirArray"
    and len: "0 + length rirArray \<le> 2147483648"
    by (simp_all add: storableArray_def)
  have "foldl (\<lambda>sum rir. int64 (sum + rir)) 0 rirArray = 0 + sum_list rirArray"
    by (rule foldl_int64_sum [OF ok _ len]) simp
  with ne show ?thesis
    by (simp add: calculateAverageRIR_def float64_of_int_def)
qed

lemma calculateAverageRIR_finite:
  assumes "rirArray \<noteq> []"
  shows "\<exists>x. calculateAverageRIR rirArray = Finite x"
  using assms by (simp add: calculateAverageRIR_def float64_of_int_def)

lemma calculateAverageRIR_Nil: "calculateAverageRIR [] = NaN"
  by (simp add: calculateAverageRIR_def float64_of_int_def)

lemma sameContent_all_rir:
  assumes "list_all2 sameContent new es" and "list_all (\<lambda>l. ActualRIR l \<noteq> []) new"
  shows "list_all (\<lambda>e. req_ActualRIR e \<noteq> []) es"
  using assms
  by (induction new es rule: list_all2_induct) (simp_all add: sameContent_def)

lemma CompleteWorkoutSession_rejects_empty:
  assumes "list_ex (\<lambda>e. req_ActualRIR e = []) exercises"
  shows "fst (CompleteWorkoutSession db now sessionID exercises) \<noteq> None"
proof
  assume ok: "fst (CompleteWorkoutSession db now sessionID exercises) = None"
  from CompleteWorkoutSession_completedRun [of db sessionID exercises now] obtain new where
    new: "completedRun db sessionID exercises (CompleteWorkoutSession db now sessionID exercises) new" ..
  from new ok have len: "length new = length exercises"
    by (simp add: completedRun_def)
  from new len have "list_all2 sameContent new exercises"
    by (simp add: completedRun_def)
  moreover from new have "list_all (\<lambda>l. ActualRIR l \<noteq> []) new"
    by (simp add: completedRun_def list_all_iff)
  ultimately have "list_all (\<lambda>e. req_ActualRIR e \<noteq> []) exercises"
    by (rule sameContent_all_rir)
  with assms show False
    by (auto simp: list_all_iff list_ex_iff)
qed

text \<open>
  Claim C10, as amended. \<^verbatim>\<open>calculateAverageRIR\<close> has no guard of its own: on the empty
  array it computes \<open>0 / 0\<close>, which is NaN; on a non-empty array it returns a finite
  number, the 64-bit sum divided by the length, which is the arithmetic mean for every
  array the table can hold. The service does not validate the arrays, but the table
  does: a request whose RIR array is empty makes \<^verbatim>\<open>CompleteWorkoutSession\<close> return an
  error, every log it persists has an RIR array the table can hold (in particular a
  non-empty one), and a table whose logs all have one stays so.
\<close>

theorem calculateAverageRIR_mean_behind_constraint:
  "(storableArray rirArray \<longrightarrow>
      calculateAverageRIR rirArray
        = Finite (of_int (sum_list rirArray) / of_nat (length rirArray)))
   \<and> (rirArray \<noteq> [] \<longrightarrow> (\<exists>x. calculateAverageRIR rirArray = Finite x))
   \<and> calculateAverageRIR [] = NaN
   \<and> (list_ex (\<lambda>e. req_ActualRIR e = []) exercises \<longrightarrow>
        fst (CompleteWorkoutSession db now sessionID exercises) \<noteq> None)
   \<and> list_all (\<lambda>l. storableArray (ActualRIR l))
        (persistedBy db (snd (CompleteWorkoutSession db now sessionID exercises)))
   \<and> (list_all (\<lambda>l. storableArray (ActualRIR l)) (tbl_workout_exercises db) \<longrightarrow>
        list_all (\<lambda>l. storableArray (ActualRIR l))
          (tbl_workout_exercises (snd (CompleteWorkoutSession db now sessionID exercises))))"
proof -
  from CompleteWorkoutSession_completedRun [of db sessionID exercises now] obtain new where
    new: "completedRun db sessionID exercises (CompleteWorkoutSession db now sessionID exercises) new" ..
  then have tbl: "tbl_workout_exercises (snd (CompleteWorkoutSession db now sessionID exercises))
      = tbl_workout_exercises db @ new"
    and rir: "list_all (\<lambda>l. storableArray (ActualRIR l)) new"
    by (simp_all add: completedRun_def)
  have "persistedBy db (snd (CompleteWorkoutSession db now sessionID exercises)) = new"
    using tbl by (rule persistedBy_append)
  with rir tbl show ?thesis
    using calculateAverageRIR_mean calculateAverageRIR_finite calculateAverageRIR_Nil
      CompleteWorkoutSession_rejects_empty
    by simp
qed

text \<open>
  Claim C10 as stated says that nothing between \<^verbatim>\<open>CompleteWorkoutSession\<close> and
  \<^verbatim>\<open>CalculateNextWorkoutWeights\<close> rejects an empty RIR array. On the example store a
  request with an empty RIR array is rejected by the CHECK constraint on
  \<^verbatim>\<open>actual_rir\<close> and nothing is stored.
\<close>

theorem CompleteWorkoutSession_rejects_empty_rir:
  "CompleteWorkoutSession example_store 4000 2
     [\<lparr>req_ProgramWorkoutExerciseID = 10, req_ActualReps = [8, 8, 8], req_ActualRIR = []\<rparr>]
   = (Some (check_violation ''workout_exercises'' ''workout_exercises_actual_rir_check''),
      example_store)"
  by (simp add: CreateWorkoutExerciseLog_def int4_ok_def example_store_def Let_def)

text \<open>
  The amended claim on the array \<open>[3, 2, 2]\<close> (mean 7/3), on a request with an empty RIR
  array, and on the example store, whose logs all satisfy the constraint.
\<close>

theorem calculateAverageRIR_mean_behind_constraint_witness:
  "storableArray [3, 2, 2]
   \<and> calculateAverageRIR [3, 2, 2] = Finite (7 / 3)
   \<and> list_ex (\<lambda>e. req_ActualRIR e = [])
        [\<lparr>req_ProgramWorkoutExerciseID = 10, req_ActualReps = [8, 8, 8], req_ActualRIR = []\<rparr>]
   \<and> fst (CompleteWorkoutSession example_store 4000 2
        [\<lparr>req_ProgramWorkoutExerciseID = 10, req_ActualReps = [8, 8, 8], req_ActualRIR = []\<rparr>]) \<noteq> None
   \<and> list_all (\<lambda>l. storableArray (ActualRIR l)) (tbl_workout_exercises example_store)
   \<and> list_all (\<lambda>l. storableArray (ActualRIR l))
        (tbl_workout_exercises (snd (CompleteWorkoutSession example_store 4000 2
        [\<lparr>req_ProgramWorkoutExerciseID = 10, req_ActualReps = [8, 8, 8], req_ActualRIR = []\<rparr>])))"
proof -
  have a: "storableArray [3, 2, 2]"
    by (simp add: storableArray_def int4_ok_def)
  have b: "list_ex (\<lambda>e. req_ActualRIR e = [])
        [\<lparr>req_ProgramWorkoutExerciseID = 10, req_ActualReps = [8, 8, 8], req_ActualRIR = []\<rparr>]"
    by simp
  have c: "list_all (\<lambda>l. storableArray (ActualRIR l)) (tbl_workout_exercises example_store)"
    by (simp add: example_store_def storableArray_def int4_ok_def)
  from calculateAverageRIR_mean_behind_constraint [of "[3, 2, 2]"
      "[\<lparr>req_ProgramWorkoutExerciseID = 10, req_ActualReps = [8, 8, 8], req_ActualRIR = []\<rparr>]"
      example_store 4000 2] a b c
  show ?thesis by simp
qed

section \<open>Next workout weights\<close>























section \<open>Initial weights\<close>


lemma initialWeightsExercises_at:
  assumes "\<forall>e\<in>set es. pwe_ID e = k \<longrightarrow> initialWeight user e = v"
      and "(\<exists>e\<in>set es. pwe_ID e = k) \<or> m0 k = Some v"
  shows "initialWeightsExercises user es m0 k = Some v"
  using assms
proof (induction es arbitrary: m0)
  case Nil
  then show ?case by simp
next
  case (Cons e es)
  let ?m1 = "m0(pwe_ID e \<mapsto> initialWeight user e)"
  have all: "\<forall>x\<in>set es. pwe_ID x = k \<longrightarrow> initialWeight user x = v"
    using Cons.prems(1) by simp
  have "(\<exists>x\<in>set es. pwe_ID x = k) \<or> ?m1 k = Some v"
  proof (cases "pwe_ID e = k")
    case True
    with Cons.prems(1) have "initialWeight user e = v" by simp
    with True show ?thesis by simp
  next
    case False
    with Cons.prems(2) show ?thesis by auto
  qed
  then have "initialWeightsExercises user es ?m1 k = Some v"
    by (rule Cons.IH [OF all])
  then show ?case by simp
qed

lemma initialWeightsWorkouts_at:
  assumes "initialWeightsWorkouts db user ws m0 = Inr m"
      and "\<forall>e\<in>set (tbl_program_workout_exercises db). pwe_ID e = k \<longrightarrow> initialWeight user e = v"
      and "(\<exists>w\<in>set ws. \<exists>e\<in>set (tbl_program_workout_exercises db).
              ProgramWorkoutID e = pw_ID w \<and> pwe_ID e = k) \<or> m0 k = Some v"
  shows "m k = Some v"
  using assms
proof (induction ws arbitrary: m0)
  case Nil
  then show ?case by simp
next
  case (Cons w ws)
  let ?es = "sort_key ExerciseOrder
      (filter (\<lambda>e. ProgramWorkoutID e = pw_ID w) (tbl_program_workout_exercises db))"
  let ?m1 = "initialWeightsExercises user ?es m0"
  have get: "GetProgramWorkoutExercises db (pw_ID w) = Inr ?es"
    by (simp add: GetProgramWorkoutExercises_def)
  with Cons.prems(1) have rest: "initialWeightsWorkouts db user ws ?m1 = Inr m"
    by simp
  have set_es: "set ?es = {e \<in> set (tbl_program_workout_exercises db). ProgramWorkoutID e = pw_ID w}"
    by simp
  have all_es: "\<forall>e\<in>set ?es. pwe_ID e = k \<longrightarrow> initialWeight user e = v"
    using Cons.prems(2) unfolding set_es by blast
  have "(\<exists>w\<in>set ws. \<exists>e\<in>set (tbl_program_workout_exercises db).
              ProgramWorkoutID e = pw_ID w \<and> pwe_ID e = k) \<or> ?m1 k = Some v"
  proof (cases "\<exists>w\<in>set ws. \<exists>e\<in>set (tbl_program_workout_exercises db).
              ProgramWorkoutID e = pw_ID w \<and> pwe_ID e = k")
    case True
    then show ?thesis ..
  next
    case False
    with Cons.prems(3) have "(\<exists>e\<in>set (tbl_program_workout_exercises db).
              ProgramWorkoutID e = pw_ID w \<and> pwe_ID e = k) \<or> m0 k = Some v"
      by auto
    then have "(\<exists>e\<in>set ?es. pwe_ID e = k) \<or> m0 k = Some v"
      unfolding set_es by blast
    then have "?m1 k = Some v"
      by (rule initialWeightsExercises_at [OF all_es])
    then show ?thesis ..
  qed
  then show ?case
    by (rule Cons.IH [OF rest Cons.prems(2)])
qed

lemma initialWeightsWorkouts_total:
  "\<exists>m. initialWeightsWorkouts db user ws m0 = Inr m"
  by (induction ws arbitrary: m0) (simp_all add: GetProgramWorkoutExercises_def)

text \<open>In the model the two list queries cannot fail, so the calculation always returns a map.\<close>

lemma CalculateInitialWeights_total:
  "\<exists>m. CalculateInitialWeights db user programID = Inr m"
  by (simp add: CalculateInitialWeights_def GetProgramWorkouts_def initialWeightsWorkouts_total)

lemma initialWeight_prescribed:
  "0 < PrescribedWeight exercise \<Longrightarrow> initialWeight user exercise = of_int (PrescribedWeight exercise)"
  by (simp add: initialWeight_def)

text \<open>
  Claim C7. In a store that satisfies the schema (the identifiers of
  \<^verbatim>\<open>program_workout_exercises\<close> are distinct, being its primary key, and
  \<^verbatim>\<open>prescribed_weight\<close> is never negative, by its CHECK constraint), the map returned by
  \<^verbatim>\<open>CalculateInitialWeights\<close> gives every exercise of every workout of the program whose
  prescribed weight is not zero exactly that prescribed weight: no base strength, no
  exercise modifier and no rounding enter the value.
\<close>

theorem CalculateInitialWeights_prescribed:
  assumes run: "CalculateInitialWeights db user programID = Inr weightMap"
      and pk: "distinct (map pwe_ID (tbl_program_workout_exercises db))"
      and chk: "list_all (\<lambda>e. 0 \<le> PrescribedWeight e) (tbl_program_workout_exercises db)"
      and ws: "GetProgramWorkouts db programID = Inr workouts" "workout \<in> set workouts"
      and es: "GetProgramWorkoutExercises db (pw_ID workout) = Inr exercises"
              "exercise \<in> set exercises"
      and nz: "PrescribedWeight exercise \<noteq> 0"
  shows "weightMap (pwe_ID exercise) = Some (of_int (PrescribedWeight exercise))"
proof -
  from es have mem: "exercise \<in> set (tbl_program_workout_exercises db)"
    and of_w: "ProgramWorkoutID exercise = pw_ID workout"
    by (auto simp: GetProgramWorkoutExercises_def)
  from chk mem have "0 \<le> PrescribedWeight exercise"
    by (simp add: list_all_iff)
  with nz have pos: "0 < PrescribedWeight exercise" by simp
  have only: "\<forall>e\<in>set (tbl_program_workout_exercises db).
      pwe_ID e = pwe_ID exercise \<longrightarrow> initialWeight user e = of_int (PrescribedWeight exercise)"
  proof (intro ballI impI)
    fix e assume "e \<in> set (tbl_program_workout_exercises db)" "pwe_ID e = pwe_ID exercise"
    with pk mem have "e = exercise"
      by (auto simp: distinct_map dest: inj_onD)
    with pos show "initialWeight user e = of_int (PrescribedWeight exercise)"
      by (simp add: initialWeight_prescribed)
  qed
  from run ws(1) have loop: "initialWeightsWorkouts db user workouts Map.empty = Inr weightMap"
    by (simp add: CalculateInitialWeights_def)
  have "(\<exists>w\<in>set workouts. \<exists>e\<in>set (tbl_program_workout_exercises db).
              ProgramWorkoutID e = pw_ID w \<and> pwe_ID e = pwe_ID exercise)
        \<or> Map.empty (pwe_ID exercise) = Some (of_int (PrescribedWeight exercise) :: real)"
    using ws(2) mem of_w by blast
  then show ?thesis
    by (rule initialWeightsWorkouts_at [OF loop only])
qed

lemmas initial_defs = CalculateInitialWeights_def GetProgramWorkouts_def
  GetProgramWorkoutExercises_def initialWeight_def calculateBaseStrength_def
  getExerciseModifier_def modifiers_def math_Round_def go_quo_def int64_def


text \<open>
  On the example store: exercise 11 is prescribed 42, which is what Janet is suggested,
  although 42 is not a multiple of 2.5; exercises 10 and 12 have no prescribed weight and
  get the rounded estimate.
\<close>

theorem CalculateInitialWeights_prescribed_witness:
  "CalculateInitialWeights example_store janet 1
     = Inr (projr (CalculateInitialWeights example_store janet 1))
   \<and> distinct (map pwe_ID (tbl_program_workout_exercises example_store))
   \<and> list_all (\<lambda>e. 0 \<le> PrescribedWeight e) (tbl_program_workout_exercises example_store)
   \<and> GetProgramWorkouts example_store 1 = Inr (projr (GetProgramWorkouts example_store 1))
   \<and> example_push \<in> set (projr (GetProgramWorkouts example_store 1))
   \<and> GetProgramWorkoutExercises example_store (pw_ID example_push)
       = Inr (projr (GetProgramWorkoutExercises example_store (pw_ID example_push)))
   \<and> example_press \<in> set (projr (GetProgramWorkoutExercises example_store (pw_ID example_push)))
   \<and> PrescribedWeight example_press \<noteq> 0
   \<and> projr (CalculateInitialWeights example_store janet 1) (pwe_ID example_press) = Some 42
   \<and> projr (CalculateInitialWeights example_store janet 1) 10 = Some 40
   \<and> projr (CalculateInitialWeights example_store janet 1) 12 = Some 42.5"
proof -
  have run: "CalculateInitialWeights example_store janet 1
     = Inr (projr (CalculateInitialWeights example_store janet 1))"
    using CalculateInitialWeights_total [of example_store janet 1] by auto
  have pk: "distinct (map pwe_ID (tbl_program_workout_exercises example_store))"
    by (simp add: example_store_def)
  have chk: "list_all (\<lambda>e. 0 \<le> PrescribedWeight e) (tbl_program_workout_exercises example_store)"
    by (simp add: example_store_def)
  have ws: "GetProgramWorkouts example_store 1 = Inr (projr (GetProgramWorkouts example_store 1))"
    "example_push \<in> set (projr (GetProgramWorkouts example_store 1))"
    by (simp_all add: GetProgramWorkouts_def example_store_def example_push_def)
  have es: "GetProgramWorkoutExercises example_store (pw_ID example_push)
       = Inr (projr (GetProgramWorkoutExercises example_store (pw_ID example_push)))"
    "example_press \<in> set (projr (GetProgramWorkoutExercises example_store (pw_ID example_push)))"
    by (simp_all add: GetProgramWorkoutExercises_def example_store_def example_push_def
          example_press_def)
  have nz: "PrescribedWeight example_press \<noteq> 0"
    by (simp add: example_press_def)
  have "projr (CalculateInitialWeights example_store janet 1) (pwe_ID example_press)
      = Some (of_int (PrescribedWeight example_press))"
    by (rule CalculateInitialWeights_prescribed [OF run pk chk ws es nz])
  then have val: "projr (CalculateInitialWeights example_store janet 1) (pwe_ID example_press)
      = Some 42"
    by (simp add: example_press_def)
  have others: "projr (CalculateInitialWeights example_store janet 1) 10 = Some 40"
    "projr (CalculateInitialWeights example_store janet 1) 12 = Some 42.5"
    by (simp_all add: initial_defs example_store_def janet_def Let_def)
  from run pk chk ws es nz val others show ?thesis by (intro conjI)
qed

section \<open>Profile updates\<close>

lemmas profile_defs = UpdateUserProfile_def GetUserByID_def UpdateUser_def writeUser_def
  validateAndApplyProfileUpdates_def applyProfileUpdate_def users_constraints_def
  validGoals_def validActivityLevels_def TrimSpace_def isSpace_def int4_ok_def


lemma foldl_field:
  fixes step :: "'u \<Rightarrow> string \<Rightarrow> dyn \<Rightarrow> 'u" and f :: "'u \<Rightarrow> 'a"
  assumes other: "\<And>u k v. k \<noteq> key \<Longrightarrow> f (step u k v) = f u"
      and own: "\<And>u v. f (step u key v) = (case valid v of None \<Rightarrow> f u | Some x \<Rightarrow> x)"
      and "distinct (map fst ups)"
  shows "f (foldl (\<lambda>u (k, v). step u k v) u ups) = fieldAfter valid (f u) (map_of ups key)"
  using assms(3)
proof (induction ups arbitrary: u)
  case Nil
  then show ?case by (simp add: fieldAfter_def)
next
  case (Cons p ups)
  obtain k v where p: "p = (k, v)" by (cases p)
  from Cons.prems have d: "distinct (map fst ups)" and fresh: "k \<notin> fst ` set ups"
    by (simp_all add: p)
  note IH = Cons.IH [OF d, of "step u k v"]
  show ?case
  proof (cases "k = key")
    case True
    with fresh have "map_of ups key = None"
      by (simp add: map_of_eq_None_iff)
    with IH True show ?thesis
      by (simp add: p own fieldAfter_def)
  next
    case False
    with IH show ?thesis
      by (simp add: p other)
  qed
qed

lemma apply_Weight:
  "k \<noteq> ''weight'' \<Longrightarrow> Weight (applyProfileUpdate u k v) = Weight u"
  "Weight (applyProfileUpdate u ''weight'' v) = (case validWeight v of None \<Rightarrow> Weight u | Some x \<Rightarrow> x)"
  by (simp_all add: applyProfileUpdate_def validWeight_def split: dyn.splits)

lemma apply_Height:
  "k \<noteq> ''height'' \<Longrightarrow> Height (applyProfileUpdate u k v) = Height u"
  "Height (applyProfileUpdate u ''height'' v) = (case validHeight v of None \<Rightarrow> Height u | Some x \<Rightarrow> x)"
  by (simp_all add: applyProfileUpdate_def validHeight_def split: dyn.splits)

lemma apply_Age:
  "k \<noteq> ''age'' \<Longrightarrow> Age (applyProfileUpdate u k v) = Age u"
  "Age (applyProfileUpdate u ''age'' v) = (case assertedAge v of None \<Rightarrow> Age u | Some x \<Rightarrow> x)"
  by (simp_all add: applyProfileUpdate_def assertedAge_def split: dyn.splits)

lemma apply_Goal:
  "k \<noteq> ''goal'' \<Longrightarrow> Goal (applyProfileUpdate u k v) = Goal u"
  "Goal (applyProfileUpdate u ''goal'' v) = (case validGoal v of None \<Rightarrow> Goal u | Some x \<Rightarrow> x)"
  by (simp_all add: applyProfileUpdate_def validGoal_def split: dyn.splits)

lemma apply_ProgramID:
  "k \<noteq> ''program_id'' \<Longrightarrow> usr_ProgramID (applyProfileUpdate u k v) = usr_ProgramID u"
  "usr_ProgramID (applyProfileUpdate u ''program_id'' v)
     = (case assertedProgramID v of None \<Rightarrow> usr_ProgramID u | Some x \<Rightarrow> x)"
  by (simp_all add: applyProfileUpdate_def assertedProgramID_def split: dyn.splits)

lemma apply_ActivityLevel:
  "k \<noteq> ''activity_level'' \<Longrightarrow> ActivityLevel (applyProfileUpdate u k v) = ActivityLevel u"
  "ActivityLevel (applyProfileUpdate u ''activity_level'' v)
     = (case validActivityLevel v of None \<Rightarrow> ActivityLevel u | Some x \<Rightarrow> x)"
  by (simp_all add: applyProfileUpdate_def validActivityLevel_def split: dyn.splits)

lemma apply_WeeklyBudget:
  "k \<noteq> ''weekly_budget'' \<Longrightarrow> WeeklyBudget (applyProfileUpdate u k v) = WeeklyBudget u"
  "WeeklyBudget (applyProfileUpdate u ''weekly_budget'' v)
     = (case validBudget v of None \<Rightarrow> WeeklyBudget u | Some x \<Rightarrow> x)"
  by (simp_all add: applyProfileUpdate_def validBudget_def split: dyn.splits)

lemma apply_Name:
  "k \<noteq> ''name'' \<Longrightarrow> Name (applyProfileUpdate u k v) = Name u"
  "Name (applyProfileUpdate u ''name'' v) = (case validName v of None \<Rightarrow> Name u | Some x \<Rightarrow> x)"
  by (simp_all add: applyProfileUpdate_def validName_def split: dyn.splits)

lemma apply_frame:
  "usr_ID (applyProfileUpdate u k v) = usr_ID u"
  "Email (applyProfileUpdate u k v) = Email u"
  "PasswordHash (applyProfileUpdate u k v) = PasswordHash u"
  "Sex (applyProfileUpdate u k v) = Sex u"
  "usr_CreatedAt (applyProfileUpdate u k v) = usr_CreatedAt u"
  "UpdatedAt (applyProfileUpdate u k v) = UpdatedAt u"
  by (simp_all add: applyProfileUpdate_def split: dyn.splits)

lemma foldl_frame:
  assumes "\<And>u k v. f (applyProfileUpdate u k v) = f u"
  shows "f (foldl (\<lambda>u (k, v). applyProfileUpdate u k v) u ups) = f u"
  by (induction ups arbitrary: u) (simp_all add: assms split: prod.splits)

lemma validateAndApplyProfileUpdates_fields:
  assumes "distinct (map fst updates)"
  shows "\<exists>user'. validateAndApplyProfileUpdates user updates = (None, user')
      \<and> Weight user' = fieldAfter validWeight (Weight user) (map_of updates ''weight'')
      \<and> Height user' = fieldAfter validHeight (Height user) (map_of updates ''height'')
      \<and> Age user' = fieldAfter assertedAge (Age user) (map_of updates ''age'')
      \<and> Goal user' = fieldAfter validGoal (Goal user) (map_of updates ''goal'')
      \<and> usr_ProgramID user'
           = fieldAfter assertedProgramID (usr_ProgramID user) (map_of updates ''program_id'')
      \<and> ActivityLevel user'
           = fieldAfter validActivityLevel (ActivityLevel user) (map_of updates ''activity_level'')
      \<and> WeeklyBudget user'
           = fieldAfter validBudget (WeeklyBudget user) (map_of updates ''weekly_budget'')
      \<and> Name user' = fieldAfter validName (Name user) (map_of updates ''name'')
      \<and> usr_ID user' = usr_ID user \<and> Email user' = Email user
      \<and> PasswordHash user' = PasswordHash user \<and> Sex user' = Sex user
      \<and> usr_CreatedAt user' = usr_CreatedAt user \<and> UpdatedAt user' = UpdatedAt user"
proof -
  let ?u = "foldl (\<lambda>u (k, v). applyProfileUpdate u k v) user updates"
  have run: "validateAndApplyProfileUpdates user updates = (None, ?u)"
    by (simp add: validateAndApplyProfileUpdates_def)
  note fld = foldl_field [where step = applyProfileUpdate and u = user, OF _ _ assms]
  have "Weight ?u = fieldAfter validWeight (Weight user) (map_of updates ''weight'')"
    by (rule fld) (simp_all add: apply_Weight)
  moreover have "Height ?u = fieldAfter validHeight (Height user) (map_of updates ''height'')"
    by (rule fld) (simp_all add: apply_Height)
  moreover have "Age ?u = fieldAfter assertedAge (Age user) (map_of updates ''age'')"
    by (rule fld) (simp_all add: apply_Age)
  moreover have "Goal ?u = fieldAfter validGoal (Goal user) (map_of updates ''goal'')"
    by (rule fld) (simp_all add: apply_Goal)
  moreover have "usr_ProgramID ?u
      = fieldAfter assertedProgramID (usr_ProgramID user) (map_of updates ''program_id'')"
    by (rule fld) (simp_all add: apply_ProgramID)
  moreover have "ActivityLevel ?u
      = fieldAfter validActivityLevel (ActivityLevel user) (map_of updates ''activity_level'')"
    by (rule fld) (simp_all add: apply_ActivityLevel)
  moreover have "WeeklyBudget ?u
      = fieldAfter validBudget (WeeklyBudget user) (map_of updates ''weekly_budget'')"
    by (rule fld) (simp_all add: apply_WeeklyBudget)
  moreover have "Name ?u = fieldAfter validName (Name user) (map_of updates ''name'')"
    by (rule fld) (simp_all add: apply_Name)
  moreover have "usr_ID ?u = usr_ID user" "Email ?u = Email user"
    "PasswordHash ?u = PasswordHash user" "Sex ?u = Sex user"
    "usr_CreatedAt ?u = usr_CreatedAt user" "UpdatedAt ?u = UpdatedAt user"
    by (rule foldl_frame, rule apply_frame)+
  ultimately show ?thesis
    using run by (intro exI [of _ ?u] conjI)
qed

lemma GetUserByID_Inr:
  assumes "GetUserByID db ident = Inr user"
  shows "usr_ID user = ident"
    and "\<exists>rest. filter (\<lambda>(u, deleted_at). usr_ID u = ident \<and> deleted_at = None) (tbl_users db)
           = (user, None) # rest"
proof -
  let ?P = "\<lambda>(u, deleted_at :: time option). usr_ID u = ident \<and> deleted_at = None"
  from assms obtain d rest where f: "filter ?P (tbl_users db) = (user, d) # rest"
    by (auto simp: GetUserByID_def split: list.splits)
  then have "(user, d) \<in> set (filter ?P (tbl_users db))" by simp
  then have "usr_ID user = ident" "d = None" by simp_all
  with f show "usr_ID user = ident"
    and "\<exists>rest. filter ?P (tbl_users db) = (user, None) # rest" by simp_all
qed

lemma writeUser_ID: "usr_ID (writeUser user now row) = usr_ID row"
  by (simp add: writeUser_def)

lemma GetUserByID_after_UpdateUser:
  assumes get: "GetUserByID db ident = Inr old"
      and ident: "usr_ID user = ident"
      and upd: "UpdateUser db now user = Inr db'"
  shows "GetUserByID db' ident = Inr (writeUser user now old)"
proof -
  let ?P = "\<lambda>(u, deleted_at :: time option). usr_ID u = ident \<and> deleted_at = None"
  let ?g = "\<lambda>(u, deleted_at :: time option).
      if usr_ID u = ident \<and> deleted_at = None
      then (writeUser user now u, deleted_at) else (u, deleted_at)"
  from upd have rows: "tbl_users db' = map ?g (tbl_users db)"
    by (auto simp: UpdateUser_def ident split: if_splits)
  have keep: "?P (?g r) = ?P r" for r
    by (cases r) (simp add: writeUser_ID)
  have "filter ?P (map ?g (tbl_users db)) = map ?g (filter ?P (tbl_users db))"
    by (simp add: filter_map comp_def keep)
  moreover from GetUserByID_Inr(2) [OF get] obtain rest where
    "filter ?P (tbl_users db) = (old, None) # rest" ..
  moreover from GetUserByID_Inr(1) [OF get] have "usr_ID old = ident" .
  ultimately have "filter ?P (tbl_users db') = (writeUser user now old, None) # map ?g rest"
    by (simp add: rows)
  then show ?thesis
    by (simp add: GetUserByID_def)
qed

text \<open>
  The service, field by field. When \<^verbatim>\<open>UpdateUserProfile\<close> returns a user for an update
  map (a list of entries with distinct keys, in any order), every updatable field of that
  user is decided on its own: it is the presented value if one is presented for the
  field's key and passes the field's test, and the old value otherwise, whatever is
  presented under the other keys. For six fields the test is the specification's notion
  of a valid value (a name is stored trimmed); for the age and the program identifier it
  is the assertion of a Go \<^verbatim>\<open>int\<close> in range. The identifier, email, sex and
  timestamps are the old ones, the password hash is cleared in the returned copy, and
  the row read back from the store carries the same fields with the old password hash
  and the new update time.
\<close>

lemma UpdateUserProfile_fields:
  assumes keys: "distinct (map fst updates)"
      and run: "UpdateUserProfile db now userID updates = (Inr user', db')"
  shows "\<exists>old. GetUserByID db userID = Inr old
      \<and> Weight user' = fieldAfter validWeight (Weight old) (map_of updates ''weight'')
      \<and> Height user' = fieldAfter validHeight (Height old) (map_of updates ''height'')
      \<and> Age user' = fieldAfter assertedAge (Age old) (map_of updates ''age'')
      \<and> Goal user' = fieldAfter validGoal (Goal old) (map_of updates ''goal'')
      \<and> usr_ProgramID user'
           = fieldAfter assertedProgramID (usr_ProgramID old) (map_of updates ''program_id'')
      \<and> ActivityLevel user'
           = fieldAfter validActivityLevel (ActivityLevel old) (map_of updates ''activity_level'')
      \<and> WeeklyBudget user'
           = fieldAfter validBudget (WeeklyBudget old) (map_of updates ''weekly_budget'')
      \<and> Name user' = fieldAfter validName (Name old) (map_of updates ''name'')
      \<and> usr_ID user' = usr_ID old \<and> Email user' = Email old \<and> Sex user' = Sex old
      \<and> usr_CreatedAt user' = usr_CreatedAt old \<and> UpdatedAt user' = UpdatedAt old
      \<and> PasswordHash user' = []
      \<and> GetUserByID db' userID
           = Inr (user'\<lparr>PasswordHash := PasswordHash old, UpdatedAt := now\<rparr>)"
proof -
  from run obtain old where old: "GetUserByID db userID = Inr old"
    by (auto simp: UpdateUserProfile_def split: sum.splits)
  from validateAndApplyProfileUpdates_fields [OF keys, of old] obtain u1 where
    v: "validateAndApplyProfileUpdates old updates = (None, u1)" and
    f: "Weight u1 = fieldAfter validWeight (Weight old) (map_of updates ''weight'')"
       "Height u1 = fieldAfter validHeight (Height old) (map_of updates ''height'')"
       "Age u1 = fieldAfter assertedAge (Age old) (map_of updates ''age'')"
       "Goal u1 = fieldAfter validGoal (Goal old) (map_of updates ''goal'')"
       "usr_ProgramID u1
           = fieldAfter assertedProgramID (usr_ProgramID old) (map_of updates ''program_id'')"
       "ActivityLevel u1
           = fieldAfter validActivityLevel (ActivityLevel old) (map_of updates ''activity_level'')"
       "WeeklyBudget u1
           = fieldAfter validBudget (WeeklyBudget old) (map_of updates ''weekly_budget'')"
       "Name u1 = fieldAfter validName (Name old) (map_of updates ''name'')" and
    g: "usr_ID u1 = usr_ID old" "Email u1 = Email old"
       "PasswordHash u1 = PasswordHash old" "Sex u1 = Sex old"
       "usr_CreatedAt u1 = usr_CreatedAt old" "UpdatedAt u1 = UpdatedAt old"
    by (elim exE conjE)
  from run old v obtain
    upd: "UpdateUser db now u1 = Inr db'" and ret: "user' = u1\<lparr>PasswordHash := []\<rparr>"
    by (auto simp: UpdateUserProfile_def split: sum.splits)
  from GetUserByID_Inr(1) [OF old] g(1) have ident: "usr_ID u1 = userID" by simp
  have stored: "GetUserByID db' userID = Inr (writeUser u1 now old)"
    by (rule GetUserByID_after_UpdateUser [OF old ident upd])
  have "writeUser u1 now old = u1\<lparr>UpdatedAt := now\<rparr>"
    using g by (simp add: writeUser_def User.equality)
  also have "\<dots> = user'\<lparr>PasswordHash := PasswordHash old, UpdatedAt := now\<rparr>"
    using g(3) by (simp add: ret User.equality)
  finally have st: "GetUserByID db' userID
      = Inr (user'\<lparr>PasswordHash := PasswordHash old, UpdatedAt := now\<rparr>)"
    using stored by simp
  from old f g st show ?thesis
    unfolding ret by (intro exI [of _ old] conjI) simp_all
qed


text \<open>
  What reaches the service from the handler. Whatever the JSON value, its decoded form
  is not a Go \<^verbatim>\<open>int\<close>, so the assertions of the cases \<^verbatim>\<open>"age"\<close> and \<^verbatim>\<open>"program_id"\<close> fail
  on it; on a Go \<^verbatim>\<open>int\<close> the assertion and the specification's range agree, and the
  code never accepts a value the specification calls invalid.
\<close>

lemma decoded_fails_int_assertion:
  "assertedAge (decode j) = None" "assertedProgramID (decode j) = None"
  by (simp_all add: assertedAge_def assertedProgramID_def decode_def split: json.splits)

lemma asserted_is_valid:
  "assertedAge v = Some a \<Longrightarrow> validAge v = Some a"
  "assertedProgramID v = Some p \<Longrightarrow> validProgramID v = Some p"
  "validAge (VInt a) = assertedAge (VInt a)"
  "validProgramID (VInt p) = assertedProgramID (VInt p)"
  by (auto simp: assertedAge_def assertedProgramID_def validAge_def validProgramID_def
        wholeNumber_def split: dyn.splits if_splits)

lemma map_of_decoded:
  "map_of (map (\<lambda>(key, j). (key, decode j)) body) k = map_option decode (map_of body k)"
  by (induction body) auto

text \<open>
  Through the handler the age and the program identifier of a user never change: every
  request that is answered with status 200 returns them as they were stored.
\<close>

lemma UserHandler_UpdateUser_keeps_int_fields:
  assumes keys: "distinct (map fst body)"
      and run: "UserHandler_UpdateUser db now userID body = (StatusOK user', db')"
  shows "\<exists>old. GetUserByID db userID = Inr old
      \<and> Age user' = Age old \<and> usr_ProgramID user' = usr_ProgramID old"
proof -
  let ?updates = "map (\<lambda>(key, j). (key, decode j)) body"
  have m: "map fst ?updates = map fst body" by (induction body) auto
  have d: "distinct (map fst ?updates)" by (simp only: m keys)
  from run have r: "UpdateUserProfile db now userID ?updates = (Inr user', db')"
    by (auto simp: UserHandler_UpdateUser_def Let_def split: prod.splits sum.splits)
  from UpdateUserProfile_fields [OF d r] obtain old where
    old: "GetUserByID db userID = Inr old" and
    age: "Age user' = fieldAfter assertedAge (Age old) (map_of ?updates ''age'')" and
    prg: "usr_ProgramID user'
           = fieldAfter assertedProgramID (usr_ProgramID old) (map_of ?updates ''program_id'')"
    by (elim exE conjE)
  have "Age user' = Age old"
    unfolding age map_of_decoded
    by (cases "map_of body ''age''") (simp_all add: fieldAfter_def decoded_fails_int_assertion)
  moreover have "usr_ProgramID user' = usr_ProgramID old"
    unfolding prg map_of_decoded
    by (cases "map_of body ''program_id''")
       (simp_all add: fieldAfter_def decoded_fails_int_assertion)
  ultimately show ?thesis using old by (intro exI [of _ old] conjI)
qed

lemmas handler_defs = UserHandler_UpdateUser_def decode_def Let_def

text \<open>
  The scenario of the specification on the example store: Janet (age 30) sends
  \<^verbatim>\<open>{"age": 200, "name": "Jane"}\<close>. The age stays 30 and the name becomes Jane, in the
  answer and in the stored row.
\<close>

lemma UserHandler_UpdateUser_age_200_name_Jane:
  "\<exists>user' db' row.
      UserHandler_UpdateUser example_store 6000 ''u1''
        [(''age'', JNumber 200), (''name'', JString ''Jane'')] = (StatusOK user', db')
    \<and> Age user' = 30 \<and> Name user' = ''Jane''
    \<and> GetUserByID db' ''u1'' = Inr row \<and> Age row = 30 \<and> Name row = ''Jane''"
  by (simp add: handler_defs profile_defs example_store_def janet_def omar_def)

text \<open>
  Claim C8 (the code departs from it). Janet (age 30) sends
  \<^verbatim>\<open>{"age": 31, "name": "Jane"}\<close>. Both presented values are valid: 31 is an age within
  13 to 120 and Jane is a name that is not blank. The handler answers with status 200
  and the name is applied, but the age is still 30 in the answer and in the stored row:
  the JSON number reaches the service as a \<^verbatim>\<open>float64\<close>, and the assertion
  \<^verbatim>\<open>value.(int)\<close> of the case \<^verbatim>\<open>"age"\<close> refuses it. A co-submitted valid field is not
  applied.
\<close>

theorem UserHandler_UpdateUser_valid_age_not_applied:
  "validAge (decode (JNumber 31)) = Some 31
   \<and> validName (decode (JString ''Jane'')) = Some ''Jane''
   \<and> (\<exists>old. GetUserByID example_store ''u1'' = Inr old \<and> Age old = 30)
   \<and> (\<exists>user' db' row.
        UserHandler_UpdateUser example_store 6000 ''u1''
          [(''age'', JNumber 31), (''name'', JString ''Jane'')] = (StatusOK user', db')
      \<and> Name user' = ''Jane'' \<and> Age user' = 30
      \<and> GetUserByID db' ''u1'' = Inr row \<and> Name row = ''Jane'' \<and> Age row = 30)"
proof (intro conjI)
  show "validAge (decode (JNumber 31)) = Some 31"
    by (simp add: validAge_def wholeNumber_def decode_def)
  show "validName (decode (JString ''Jane'')) = Some ''Jane''"
    by (simp add: validName_def decode_def TrimSpace_def isSpace_def)
  show "\<exists>old. GetUserByID example_store ''u1'' = Inr old \<and> Age old = 30"
    by (simp add: GetUserByID_def example_store_def janet_def omar_def)
  show "\<exists>user' db' row.
        UserHandler_UpdateUser example_store 6000 ''u1''
          [(''age'', JNumber 31), (''name'', JString ''Jane'')] = (StatusOK user', db')
      \<and> Name user' = ''Jane'' \<and> Age user' = 30
      \<and> GetUserByID db' ''u1'' = Inr row \<and> Name row = ''Jane'' \<and> Age row = 30"
    by (simp add: handler_defs profile_defs example_store_def janet_def omar_def)
qed

end
